theory Spec2Isabelle
  imports Main "HOL-Library.Word" "HOL-Library.AList" "HOL-Library.Char_ord"
    "HOL-Library.List_Lexorder"
begin

section \<open>Strings, bytes and the pieces of the standard library that \<open>api.go\<close> calls\<close>

text \<open>
  A Go string is a sequence of bytes; it is modelled as a \<open>string\<close>, one \<open>char\<close> per byte.
  The regular expression of \<open>api.go\<close> reads its input character by character; an ASCII
  character is one byte wherever it stands, and the matcher below reads bytes, which is the
  same thing for a key of ASCII characters.
\<close>

type_synonym bytes = string

definition isAlnum :: "char \<Rightarrow> bool" where
  "isAlnum c =
     (let n = (of_char c :: nat)
      in (48 \<le> n \<and> n \<le> 57) \<or> (65 \<le> n \<and> n \<le> 90) \<or> (97 \<le> n \<and> n \<le> 122))"

text \<open>The class \<open>\w\<close> of Go's \<open>regexp\<close>: \<open>[0-9A-Za-z_]\<close>.\<close>

definition isWordChar :: "char \<Rightarrow> bool" where
  "isWordChar c = (isAlnum c \<or> c = CHR ''_'')"

subsection \<open>The fragment of \<open>regexp\<close> that \<open>DatacenterRegex\<close> uses\<close>

text \<open>
  A pattern is a sequence of items, each a character class taken once or one or more times
  (greedy, with backtracking), anchored at the end of the text by \<open>$\<close>.
\<close>

datatype cclass = NotChar char | WordClass

datatype item = Once cclass | Plus cclass

fun accepts :: "cclass \<Rightarrow> char \<Rightarrow> bool" where
  "accepts (NotChar x) c = (c \<noteq> x)"
| "accepts WordClass c = isWordChar c"

text \<open>
  \<open>matchAt p s\<close>: the length of the match of \<open>p$\<close> that starts at the head of \<open>s\<close>, the
  one a leftmost-first matcher prefers, or \<open>None\<close>. The text is a string of bytes and a
  class takes one byte, as the matcher of \<open>regexp\<close> does on ASCII text; on other text the
  library takes the UTF-8 runes, one for a class, which this function does not follow.
\<close>

fun matchAt :: "item list \<Rightarrow> string \<Rightarrow> nat option" where
  "matchAt [] s = (if s = [] then Some 0 else None)"
| "matchAt (Once a # p) [] = None"
| "matchAt (Once a # p) (c # cs) =
     (if accepts a c then map_option Suc (matchAt p cs) else None)"
| "matchAt (Plus a # p) [] = None"
| "matchAt (Plus a # p) (c # cs) =
     (if accepts a c
      then (case matchAt (Plus a # p) cs of
              Some n \<Rightarrow> Some (Suc n)
            | None \<Rightarrow> map_option Suc (matchAt p cs))
      else None)"

text \<open>
  \<open>Regexp.FindString\<close>: the text of the leftmost match, the empty string when there is
  none.
\<close>

fun FindString :: "item list \<Rightarrow> string \<Rightarrow> string" where
  "FindString p [] = []"
| "FindString p (c # cs) =
     (case matchAt p (c # cs) of
        Some n \<Rightarrow> take n (c # cs)
      | None \<Rightarrow> FindString p cs)"

text \<open>\<open>var DatacenterRegex = regexp.MustCompile("[^-]\\w+$")\<close>\<close>

definition DatacenterRegex :: "item list" where
  "DatacenterRegex = [Once (NotChar CHR ''-''), Plus WordClass]"

subsection \<open>Percent-encoding of \<open>net/url\<close>\<close>

definition hexDigit :: "nat \<Rightarrow> char" where
  "hexDigit k = ''0123456789ABCDEF'' ! (k mod 16)"

definition pctEncode :: "char \<Rightarrow> string" where
  "pctEncode c = [CHR ''%'', hexDigit (of_char c div 16), hexDigit (of_char c mod 16)]"

text \<open>\<open>shouldEscape(c, encodeHost)\<close> and \<open>escape(s, encodeHost)\<close>.\<close>

definition shouldEscapeHost :: "char \<Rightarrow> bool" where
  "shouldEscapeHost c =
     (\<not> (isAlnum c \<or> c \<in> set ''!$&'()*+,;=:[]<>\"'' \<or> c \<in> set ''-_.~''))"

definition escapeHost :: "string \<Rightarrow> string" where
  "escapeHost s = concat (map (\<lambda>c. if shouldEscapeHost c then pctEncode c else [c]) s)"

text \<open>\<open>shouldEscape(c, encodeQueryComponent)\<close> and \<open>QueryEscape\<close>.\<close>

definition shouldEscapeQuery :: "char \<Rightarrow> bool" where
  "shouldEscapeQuery c = (\<not> (isAlnum c \<or> c \<in> set ''-_.~''))"

definition QueryEscape :: "string \<Rightarrow> string" where
  "QueryEscape s =
     concat (map (\<lambda>c. if c = CHR '' '' then ''+''
                      else if shouldEscapeQuery c then pctEncode c else [c]) s)"

text \<open>
  \<open>url.URL\<close>, the fields \<open>api.go\<close> sets or reads, and \<open>URL.String\<close> for a URL with a
  scheme, a host and a path that starts with a slash and needs no escaping (\<open>/3.0\<close>).
\<close>

record URL =
  Scheme :: string
  Host :: string
  Path :: string
  RawQuery :: string

definition URL_String :: "URL \<Rightarrow> string" where
  "URL_String u =
     Scheme u @ '':'' @ ''//'' @ escapeHost (Host u) @ Path u
       @ (if RawQuery u = [] then [] else ''?'' @ RawQuery u)"

section \<open>The client\<close>

text \<open>\<open>const URIFormat string = "%s.api.mailchimp.com"\<close>, as \<open>fmt.Sprintf(URIFormat, s)\<close>.\<close>

definition URIFormat :: "string \<Rightarrow> string" where
  "URIFormat s = s @ ''.api.mailchimp.com''"

definition Version :: string where
  "Version = ''/3.0''"

type_synonym Duration = "64 word"

text \<open>
  \<open>type API struct\<close>. The \<open>Transport\<close> field is a reference to a round tripper with a
  state of its own: it is the \<open>transport\<close> component of the world below.
\<close>

record API =
  Key :: string
  Timeout :: Duration
  User :: string
  Debug :: bool
  endpoint :: string

text \<open>The datacenter token of \<open>New\<close>: \<open>DatacenterRegex.FindString(apiKey)\<close>.\<close>

definition datacenter :: "string \<Rightarrow> string" where
  "datacenter apiKey = FindString DatacenterRegex apiKey"

definition New :: "string \<Rightarrow> API" where
  "New apiKey =
     (let u = \<lparr>Scheme = ''https'', Host = URIFormat (datacenter apiKey), Path = Version,
                RawQuery = []\<rparr>
      in \<lparr>Key = apiKey, Timeout = 0, User = ''gochimp3'', Debug = False,
          endpoint = URL_String u\<rparr>)"

text \<open>
  The spec's words for the token: the trailing run of word characters of a string.
\<close>

definition trailingWordRun :: "string \<Rightarrow> string" where
  "trailingWordRun s = rev (takeWhile isWordChar (rev s))"

section \<open>Values, errors and the world a request runs in\<close>

text \<open>
  \<open>url.Values\<close> is a map from a key to a list of values; \<open>Set\<close> replaces the list of a
  key by one value; \<open>Encode\<close> writes the pairs sorted by key, joined by \<open>&\<close>.
\<close>

type_synonym Values = "(string \<times> string list) list"

definition Values_Set :: "string \<Rightarrow> string \<Rightarrow> Values \<Rightarrow> Values" where
  "Values_Set k v q = AList.update k [v] q"

fun joinAmp :: "string list \<Rightarrow> string" where
  "joinAmp [] = []"
| "joinAmp [x] = x"
| "joinAmp (x # y # ys) = x @ ''&'' @ joinAmp (y # ys)"

definition Values_Encode :: "Values \<Rightarrow> string" where
  "Values_Encode q =
     joinAmp (concat (map (\<lambda>k. case map_of q k of
                                  None \<Rightarrow> []
                                | Some vs \<Rightarrow> map (\<lambda>v. QueryEscape k @ ''='' @ QueryEscape v) vs)
                          (sort (map fst q))))"

text \<open>
  An interface value, as \<open>x != nil\<close> and \<open>reflect.ValueOf(x).IsNil()\<close> tell its cases
  apart: the nil interface; a nil value of a kind that can be nil (pointer, map, slice,
  chan, func, interface); a value of such a kind that is not nil; a value of a kind that
  cannot be nil, here a struct.
\<close>

datatype 'a iface = NilInterface | TypedNil | NonNil 'a | NonNilable 'a

text \<open>
  \<open>reflect.Value.IsNil\<close> panics unless the kind is one that can be nil; the zero
  \<open>Value\<close>, which \<open>reflect.ValueOf(nil)\<close> returns, has the kind \<open>Invalid\<close>. The message of
  the panic names the kind: for a string or a number it has that kind's name where the
  struct's is here.
\<close>

fun reflect_IsNil :: "'a iface \<Rightarrow> string + bool" where
  "reflect_IsNil NilInterface = Inl ''reflect: call of reflect.Value.IsNil on zero Value''"
| "reflect_IsNil TypedNil = Inr True"
| "reflect_IsNil (NonNil v) = Inr False"
| "reflect_IsNil (NonNilable v) = Inl ''reflect: call of reflect.Value.IsNil on struct Value''"

text \<open>
  \<open>QueryParams\<close>: an interface with the one method \<open>Params() map[string]string\<close>. A value of
  it is modelled by the map its method returns, a list of pairs with distinct keys.
\<close>

type_synonym QueryParams = "(string \<times> string) list iface"

fun Params :: "QueryParams \<Rightarrow> (string \<times> string) list" where
  "Params (NonNil m) = m"
| "Params (NonNilable m) = m"
| "Params NilInterface = []"
| "Params TypedNil = []"

text \<open>
  Modelled from the spec: the type \<open>APIError\<close>, which \<open>parseAPIError\<close> fills and returns
  and whose declaration is not in \<open>api.go\<close>: a numeric status, an error-type token, a
  title and a detail.
\<close>

record APIError =
  Status :: int
  Type :: string
  Title :: string
  Detail :: string

definition new_APIError :: APIError where
  "new_APIError = \<lparr>Status = 0, Type = [], Title = [], Detail = []\<rparr>"

text \<open>
  The errors of a call. Those \<open>rawRequest\<close> can return: one of \<open>encoding/json\<close>, one of
  \<open>net/http\<close> (building the request, the round trip, reading the body; whatever the
  transport gives as its error is one of these), an \<open>*APIError\<close>. And the error with which
  a retry loop ends when its context is cancelled. A call either panics or returns an
  error or nil.
\<close>

datatype error = JSONError string | HTTPError string | APIErr APIError | Canceled

datatype result = Panics string | Returns "error option"

datatype hval = Str string | Basic string string

text \<open>
  A request. Its body is \<open>None\<close> for a nil \<open>Body\<close> and otherwise the bytes that a read
  of the body gives; the body without bytes is \<open>http.NoBody\<close>, which is what
  \<open>http.NewRequest\<close> makes of an empty buffer.
\<close>

record Request =
  Method :: string
  ReqURL :: URL
  Header :: "(string \<times> hval) list"
  ReqBody :: "bytes option"

text \<open>
  A response: its status code and what \<open>ioutil.ReadAll\<close> gives on its body as the
  transport has returned it, an error or the bytes.
\<close>

record Response =
  StatusCode :: int
  Body :: "string + bytes"

text \<open>
  A JSON value as \<open>encoding/json\<close> scans it: a number by its literal, a string and the
  name of a member unquoted, the members of an object in the order of the document.
\<close>

datatype json =
    JNull
  | JBool bool
  | JNumber string
  | JString string
  | JArray "json list"
  | JObject "(string \<times> json) list"

text \<open>
  The standard library functions whose results depend on data \<open>api.go\<close> does not look
  into are parameters: \<open>json.Marshal\<close> of the body; the decoder behind \<open>json.Unmarshal\<close>
  for the caller's destination (given the bytes and the value the destination holds, it
  gives an error or none and the value the destination holds afterwards); the scanner of
  \<open>encoding/json\<close>, which gives the syntax error of \<open>checkValid\<close> or the value the bytes
  spell; \<open>http.NewRequest\<close> (an error for a bad method or URL, or the request with its
  parsed URL); \<open>url.ParseQuery\<close> behind \<open>URL.Query\<close>, which drops what it cannot parse;
  \<open>Client.Do\<close> with the client's timeout, running on the state of the transport; and
  what \<open>ioutil.ReadAll\<close> gives on the body of a response when an earlier read of that
  body has failed, which is up to the body the transport has made. Closing a body is
  taken to succeed.
\<close>

record ('b, 'v, 't) stdlib =
  json_Marshal :: "'b \<Rightarrow> string + bytes"
  json_decode :: "bytes \<Rightarrow> 'v \<Rightarrow> string option \<times> 'v"
  json_value :: "bytes \<Rightarrow> string + json"
  http_NewRequest :: "string \<Rightarrow> string \<Rightarrow> bytes option \<Rightarrow> string + Request"
  url_ParseQuery :: "string \<Rightarrow> Values"
  http_Do :: "Duration \<Rightarrow> Request \<Rightarrow> 't \<Rightarrow> (string + Response) \<times> 't"
  body_ReadAgain :: "'t \<Rightarrow> Response \<Rightarrow> string + bytes"

text \<open>
  \<open>json.Unmarshal(data, v)\<close> checks that \<open>data\<close> is well-formed JSON before it decodes:
  empty input is a syntax error, whatever \<open>v\<close> is.
\<close>

definition json_Unmarshal ::
  "(bytes \<Rightarrow> 'v \<Rightarrow> string option \<times> 'v) \<Rightarrow> bytes \<Rightarrow> 'v \<Rightarrow> error option \<times> 'v" where
  "json_Unmarshal decode data v =
     (if data = [] then (Some (JSONError ''unexpected end of JSON input''), v)
      else (case decode data v of
              (None, v') \<Rightarrow> (None, v')
            | (Some m, v') \<Rightarrow> (Some (JSONError m), v')))"

text \<open>
  What \<open>log.Printf\<close> and \<open>log.Println\<close> are called with; the dump of a response is
  empty when \<open>DumpResponse\<close> has failed.
\<close>

datatype 'b logline =
    Requesting string string
  | AddingBody 'b
  | AddingQueryParams Values
  | DumpRequestOut Request
  | DumpResponse Response
  | EmptyDump
  | MailchimpError bytes

text \<open>A wait of the retry loop: slept through, or cut short by the context.\<close>

datatype wait = Slept Duration | Aborted

text \<open>
  The world of a call: the state of the transport, the value the response destination
  points to, the log, and the waits so far.
\<close>

record ('b, 'v, 't) world =
  transport :: 't
  pointee :: 'v
  logs :: "'b logline list"
  waits :: "wait list"

section \<open>The JSON of an error payload\<close>

text \<open>
  \<open>strconv.ParseInt(s, 10, 64)\<close>, which the decoder calls on the literal of a number that
  goes into a field of type \<open>int\<close>: an optional sign and decimal digits, at least one, with a
  value that 64 bits hold.
\<close>

definition isDigit :: "char \<Rightarrow> bool" where
  "isDigit c = (48 \<le> (of_char c :: nat) \<and> (of_char c :: nat) \<le> 57)"

definition digitsValue :: "string \<Rightarrow> int" where
  "digitsValue ds = foldl (\<lambda>n c. n * 10 + (of_char c - 48)) 0 ds"

definition ParseInt :: "string \<Rightarrow> int option" where
  "ParseInt s =
     (let neg = (case s of [] \<Rightarrow> False | c # cs \<Rightarrow> c = CHR ''-'');
          ds = (case s of
                  [] \<Rightarrow> []
                | c # cs \<Rightarrow> if c = CHR ''-'' \<or> c = CHR ''+'' then cs else s)
      in if ds = [] \<or> \<not> list_all isDigit ds then None
         else if neg
         then (if digitsValue ds \<le> 2 ^ 63 then Some (- digitsValue ds) else None)
         else (if digitsValue ds < 2 ^ 63 then Some (digitsValue ds) else None))"

text \<open>
  The name of a member is matched to a field without regard to case, as \<open>foldName\<close> of
  \<open>encoding/json\<close> has it: ASCII letters are taken as capitals, and so are the two other
  letters that fold to an ASCII one, U+017F (long s) and U+212A (the Kelvin sign), here in
  their UTF-8 bytes.
\<close>

definition upperASCII :: "char \<Rightarrow> char" where
  "upperASCII c =
     (if 97 \<le> (of_char c :: nat) \<and> (of_char c :: nat) \<le> 122
      then char_of ((of_char c :: nat) - 32) else c)"

fun foldName :: "string \<Rightarrow> string" where
  "foldName [] = []"
| "foldName [c] = [upperASCII c]"
| "foldName [c, d] =
     (if c = CHR 0xC5 \<and> d = CHR 0xBF then ''S'' else [upperASCII c, upperASCII d])"
| "foldName (c # d # e # cs) =
     (if c = CHR 0xC5 \<and> d = CHR 0xBF then CHR ''S'' # foldName (e # cs)
      else if c = CHR 0xE2 \<and> d = CHR 0x84 \<and> e = CHR 0xAA then CHR ''K'' # foldName cs
      else upperASCII c # foldName (d # e # cs))"

text \<open>
  The decoder of \<open>encoding/json\<close> at the type \<open>*APIError\<close>, for a document that is
  well-formed. A \<open>null\<close> leaves the struct as it is. For an object it goes through the
  members in their order: a member whose name matches a field is stored in it when it is
  of the field's type, passed over when it is \<open>null\<close>, and otherwise the first such mismatch
  is kept as the error while the decoder goes on; a member of another name is passed over.
  Any other value is a mismatch. The messages are the library's for the type as the spec
  has it; that of a number which is no integer of 64 bits has its literal.
\<close>

definition saveError :: "string \<Rightarrow> string option \<Rightarrow> string option" where
  "saveError m saved = (case saved of None \<Rightarrow> Some m | Some first \<Rightarrow> Some first)"

fun jsonKind :: "json \<Rightarrow> string" where
  "jsonKind JNull = ''null''"
| "jsonKind (JBool b) = ''bool''"
| "jsonKind (JNumber lit) = ''number''"
| "jsonKind (JString s) = ''string''"
| "jsonKind (JArray vs) = ''array''"
| "jsonKind (JObject ms) = ''object''"

definition mismatch :: "string \<Rightarrow> string \<Rightarrow> string \<Rightarrow> string" where
  "mismatch kind field ty =
     ''json: cannot unmarshal '' @ kind @ '' into Go struct field APIError.'' @ field
       @ '' of type '' @ ty"

definition storeMember :: "string \<Rightarrow> json \<Rightarrow> string option \<times> APIError \<Rightarrow> string option \<times> APIError" where
  "storeMember k v st =
     (case st of
        (saved, a) \<Rightarrow>
          if foldName k = ''STATUS''
          then (case v of
                  JNull \<Rightarrow> (saved, a)
                | JNumber lit \<Rightarrow>
                    (case ParseInt lit of
                       Some n \<Rightarrow> (saved, a\<lparr>Status := n\<rparr>)
                     | None \<Rightarrow>
                         (saveError (mismatch (''number '' @ lit) ''status'' ''int'') saved, a))
                | _ \<Rightarrow> (saveError (mismatch (jsonKind v) ''status'' ''int'') saved, a))
          else if foldName k = ''TYPE''
          then (case v of
                  JNull \<Rightarrow> (saved, a)
                | JString s \<Rightarrow> (saved, a\<lparr>Type := s\<rparr>)
                | _ \<Rightarrow> (saveError (mismatch (jsonKind v) ''type'' ''string'') saved, a))
          else if foldName k = ''TITLE''
          then (case v of
                  JNull \<Rightarrow> (saved, a)
                | JString s \<Rightarrow> (saved, a\<lparr>Title := s\<rparr>)
                | _ \<Rightarrow> (saveError (mismatch (jsonKind v) ''title'' ''string'') saved, a))
          else if foldName k = ''DETAIL''
          then (case v of
                  JNull \<Rightarrow> (saved, a)
                | JString s \<Rightarrow> (saved, a\<lparr>Detail := s\<rparr>)
                | _ \<Rightarrow> (saveError (mismatch (jsonKind v) ''detail'' ''string'') saved, a))
          else (saved, a))"

definition unmarshal_APIError :: "json \<Rightarrow> APIError \<Rightarrow> string option \<times> APIError" where
  "unmarshal_APIError j a =
     (case j of
        JNull \<Rightarrow> (None, a)
      | JObject ms \<Rightarrow> fold (\<lambda>(k, v). storeMember k v) ms (None, a)
      | _ \<Rightarrow>
          (Some (''json: cannot unmarshal '' @ jsonKind j
                   @ '' into Go value of type gochimp3.APIError''), a))"

section \<open>\<open>rawRequest\<close>\<close>

text \<open>
  What the two dumps of \<open>net/http/httputil\<close> leave behind, which is what \<open>rawRequest\<close>
  goes on with when \<open>Debug\<close> is set. \<open>DumpRequestOut(req, true)\<close> drains the body of the
  request and puts a copy in its place, and \<open>http.NoBody\<close> in the place of a nil body.
  \<open>DumpResponse(resp, true)\<close> reads the body of the response to its end and puts a copy
  in its place; when the read fails it gives up and leaves the body where the failed read
  has left it, so that the next read is a read after a failure. \<open>rawRequest\<close> drops the
  errors of both.
\<close>

definition httputil_DumpRequestOut :: "Request \<Rightarrow> Request" where
  "httputil_DumpRequestOut req =
     req\<lparr>ReqBody := (case ReqBody req of None \<Rightarrow> Some [] | Some d \<Rightarrow> Some d)\<rparr>"

definition httputil_DumpResponse :: "('b, 'v, 't) stdlib \<Rightarrow> 't \<Rightarrow> Response \<Rightarrow> Response" where
  "httputil_DumpResponse lib t resp =
     resp\<lparr>Body := (case Body resp of
                      Inr data \<Rightarrow> Inr data
                    | Inl m \<Rightarrow> body_ReadAgain lib t resp)\<rparr>"

text \<open>Lines 87 to 96 without the log: the bytes of the body, if there is one.\<close>

definition marshalBody :: "('b, 'v, 't) stdlib \<Rightarrow> 'b option \<Rightarrow> string + bytes option" where
  "marshalBody lib body =
     (case body of
        None \<Rightarrow> Inr None
      | Some b \<Rightarrow> (case json_Marshal lib b of Inl m \<Rightarrow> Inl m | Inr data \<Rightarrow> Inr (Some data)))"

text \<open>
  The loop of lines 108 to 112 over the map that \<open>Params()\<close> returns: a key with a
  value that is not empty is set, the others are passed over.
\<close>

definition setParams :: "(string \<times> string) list \<Rightarrow> Values \<Rightarrow> Values" where
  "setParams m queryParams =
     fold (\<lambda>(k, v) q. if v \<noteq> [] then Values_Set k v q else q) m queryParams"

text \<open>
  Lines 79 to 123: the request that goes out, with the lines logged on the way; or the
  error or panic that ends the call before the round trip.
\<close>

definition outgoingRequest ::
  "('b, 'v, 't) stdlib \<Rightarrow> API \<Rightarrow> string \<Rightarrow> string \<Rightarrow> QueryParams \<Rightarrow> 'b option
     \<Rightarrow> 'b logline list \<times> (result + Request)" where
  "outgoingRequest lib api method path params body =
     (let requestURL = endpoint api @ path;
          l1 = (if Debug api then [Requesting method requestURL] else [])
      in case marshalBody lib body of
           Inl m \<Rightarrow> (l1, Inl (Returns (Some (JSONError m))))
         | Inr bodyBytes \<Rightarrow>
             (let l2 = l1 @ (case body of
                               None \<Rightarrow> []
                             | Some b \<Rightarrow> if Debug api then [AddingBody b] else [])
              in case http_NewRequest lib method requestURL bodyBytes of
                   Inl m \<Rightarrow> (l2, Inl (Returns (Some (HTTPError m))))
                 | Inr req0 \<Rightarrow>
                     (let req1 = req0\<lparr>Header :=
                            AList.update ''Authorization'' (Basic (User api) (Key api))
                              (AList.update ''Content-Type'' (Str ''application/json'')
                                 (Header req0))\<rparr>
                      in case (if params = NilInterface then Inr False
                               else map_sum id Not (reflect_IsNil params)) of
                           Inl p \<Rightarrow> (l2, Inl (Panics p))
                         | Inr False \<Rightarrow>
                             (if Debug api
                              then (l2 @ [DumpRequestOut req1], Inr (httputil_DumpRequestOut req1))
                              else (l2, Inr req1))
                         | Inr True \<Rightarrow>
                             (let queryParams =
                                    setParams (Params params)
                                      (url_ParseQuery lib (RawQuery (ReqURL req1)));
                                  req2 = req1\<lparr>ReqURL :=
                                     (ReqURL req1)\<lparr>RawQuery := Values_Encode queryParams\<rparr>\<rparr>;
                                  l3 = l2 @ (if Debug api
                                             then [AddingQueryParams
                                                     (url_ParseQuery lib (RawQuery (ReqURL req2)))]
                                             else [])
                              in if Debug api
                                 then (l3 @ [DumpRequestOut req2], Inr (httputil_DumpRequestOut req2))
                                 else (l3, Inr req2)))))"

text \<open>
  \<open>json.Unmarshal(data, apiError)\<close> of \<open>parseAPIError\<close>, after the check of the syntax:
  the scanner's error, or what the decoder makes of the value.
\<close>

definition decode_APIError ::
  "('b, 'v, 't) stdlib \<Rightarrow> bytes \<Rightarrow> APIError \<Rightarrow> string option \<times> APIError" where
  "decode_APIError lib data a =
     (case json_value lib data of
        Inl m \<Rightarrow> (Some m, a)
      | Inr j \<Rightarrow> unmarshal_APIError j a)"

text \<open>\<open>parseAPIError\<close>: it logs the body and returns an error, never nil.\<close>

definition parseAPIError ::
  "('b, 'v, 't) stdlib \<Rightarrow> bytes \<Rightarrow> ('b, 'v, 't) world \<Rightarrow> error \<times> ('b, 'v, 't) world" where
  "parseAPIError lib data w =
     (let w1 = w\<lparr>logs := logs w @ [MailchimpError data]\<rparr>
      in case json_Unmarshal (decode_APIError lib) data new_APIError of
           (Some err, apiError) \<Rightarrow> (err, w1)
         | (None, apiError) \<Rightarrow> (APIErr apiError, w1))"

text \<open>
  The test of line 143, \<open>response == nil || reflect.ValueOf(response).IsNil() ||
  len(data) == 0\<close>, evaluated from left to right.
\<close>

definition skipUnmarshal :: "'a iface \<Rightarrow> bytes \<Rightarrow> string + bool" where
  "skipUnmarshal response data =
     (if response = NilInterface then Inr True
      else (case reflect_IsNil response of
              Inl p \<Rightarrow> Inl p
            | Inr True \<Rightarrow> Inr True
            | Inr False \<Rightarrow> Inr (length data = 0)))"

text \<open>
  Lines 74 to 77: the timeout of the client, the one of the API when that is positive,
  and otherwise 0, which means none.
\<close>

definition clientTimeout :: "API \<Rightarrow> Duration" where
  "clientTimeout api = (if 0 <s Timeout api then Timeout api else 0)"

definition rawRequest ::
  "('b, 'v, 't) stdlib \<Rightarrow> API \<Rightarrow> string \<Rightarrow> string \<Rightarrow> QueryParams \<Rightarrow> 'b option \<Rightarrow> unit iface
     \<Rightarrow> ('b, 'v, 't) world \<Rightarrow> result \<times> ('b, 'v, 't) world" where
  "rawRequest lib api method path params body response w =
     (case outgoingRequest lib api method path params body of
           (l, Inl r) \<Rightarrow> (r, w\<lparr>logs := logs w @ l\<rparr>)
         | (l, Inr req) \<Rightarrow>
             (case http_Do lib (clientTimeout api) req (transport w) of
                (Inl m, t) \<Rightarrow> (Returns (Some (HTTPError m)), w\<lparr>transport := t, logs := logs w @ l\<rparr>)
              | (Inr resp0, t) \<Rightarrow>
                  (let resp = (if Debug api then httputil_DumpResponse lib t resp0 else resp0);
                       w1 = w\<lparr>transport := t,
                              logs := logs w @ l @
                                (if Debug api
                                 then [case Body resp0 of
                                         Inl m \<Rightarrow> EmptyDump
                                       | Inr data \<Rightarrow> DumpResponse resp0]
                                 else [])\<rparr>
                   in case Body resp of
                        Inl m \<Rightarrow> (Returns (Some (HTTPError m)), w1)
                      | Inr data \<Rightarrow>
                          if 200 \<le> StatusCode resp \<and> StatusCode resp < 300
                          then (case skipUnmarshal response data of
                                  Inl p \<Rightarrow> (Panics p, w1)
                                | Inr True \<Rightarrow> (Returns None, w1)
                                | Inr False \<Rightarrow>
                                    (case json_Unmarshal (json_decode lib) data (pointee w1) of
                                       (err, v) \<Rightarrow> (Returns err, w1\<lparr>pointee := v\<rparr>)))
                          else (case parseAPIError lib data w1 of
                                  (err, w2) \<Rightarrow> (Returns (Some err), w2)))))"

section \<open>\<open>Request\<close> and its retries\<close>

text \<open>
  \<open>rand.Intn(n)\<close> panics when \<open>n <= 0\<close> and otherwise returns a number from 0 up to
  \<open>n - 1\<close>, here the one the source \<open>src\<close> of randomness picks.
\<close>

definition rand_Intn :: "nat \<Rightarrow> 64 word \<Rightarrow> string + 64 word" where
  "rand_Intn src n =
     (if sint n \<le> 0 then Inl ''invalid argument to Intn''
      else Inr (of_nat (src mod nat (sint n))))"

definition Random :: "nat \<Rightarrow> 64 word \<Rightarrow> 64 word \<Rightarrow> string + Duration" where
  "Random src minimum maximum =
     (case rand_Intn src (maximum - minimum) of
        Inl p \<Rightarrow> Inl p
      | Inr r \<Rightarrow> Inr (r + minimum))"

text \<open>\<open>time.Minute\<close>, in nanoseconds.\<close>

definition Minute :: Duration where
  "Minute = 60000000000"

text \<open>
  A context: \<open>context.Background()\<close>, which is never done, or one that its owner cancels
  while the loop is in its wait number \<open>n\<close> (counted from 0 over the waits of the world).
\<close>

datatype Context = Background | CancelledDuring nat

fun ctx_Done :: "Context \<Rightarrow> nat \<Rightarrow> bool" where
  "ctx_Done Background k = False"
| "ctx_Done (CancelledDuring n) k = (n \<le> k)"

text \<open>
  Modelled from the spec: \<open>ptk.RetryCtx\<close>, of the package \<open>github.com/PathDNA/ptk\<close> that
  \<open>api.go\<close> imports and whose code is not in the repository. It makes up to \<open>attempts\<close>
  calls of \<open>fn\<close>; any error triggers a retry if attempts remain, otherwise the last error
  is returned; between attempts it waits the backoff duration; a cancellation signal of
  the context aborts the wait and the loop with a cancellation error. The spec says
  nothing of the last argument of the call (0), which is left out.
\<close>

fun RetryCtx ::
  "Context \<Rightarrow> (('b, 'v, 't) world \<Rightarrow> result \<times> ('b, 'v, 't) world) \<Rightarrow> nat \<Rightarrow> Duration
     \<Rightarrow> ('b, 'v, 't) world \<Rightarrow> result \<times> ('b, 'v, 't) world" where
  "RetryCtx ctx fn 0 delay w = (Returns None, w)"
| "RetryCtx ctx fn (Suc n) delay w =
     (case fn w of
        (Returns (Some err), w1) \<Rightarrow>
          if n = 0 then (Returns (Some err), w1)
          else if ctx_Done ctx (length (waits w1))
          then (Returns (Some Canceled), w1\<lparr>waits := waits w1 @ [Aborted]\<rparr>)
          else RetryCtx ctx fn n delay (w1\<lparr>waits := waits w1 @ [Slept delay]\<rparr>)
      | (r, w1) \<Rightarrow> (r, w1))"

text \<open>
  \<open>Request\<close>: the delay is drawn once, before the loop, as
  \<open>time.Duration(Random(1, 10) * time.Minute)\<close>.
\<close>

definition Request ::
  "('b, 'v, 't) stdlib \<Rightarrow> API \<Rightarrow> string \<Rightarrow> string \<Rightarrow> QueryParams \<Rightarrow> 'b option \<Rightarrow> unit iface
     \<Rightarrow> nat \<Rightarrow> ('b, 'v, 't) world \<Rightarrow> result \<times> ('b, 'v, 't) world" where
  "Request lib api method path params body response src w =
     (case Random src 1 10 of
        Inl p \<Rightarrow> (Panics p, w)
      | Inr d \<Rightarrow>
          RetryCtx Background (rawRequest lib api method path params body response) 5
            (d * Minute) w)"

text \<open>\<open>RequestOk\<close>\<close>

definition RequestOk ::
  "('b, 'v, 't) stdlib \<Rightarrow> API \<Rightarrow> string \<Rightarrow> string \<Rightarrow> nat \<Rightarrow> ('b, 'v, 't) world
     \<Rightarrow> (string + bool \<times> error option) \<times> ('b, 'v, 't) world" where
  "RequestOk lib api method path src w =
     (case Request lib api method path NilInterface None NilInterface src w of
        (Panics p, w1) \<Rightarrow> (Inl p, w1)
      | (Returns (Some err), w1) \<Rightarrow> (Inr (False, Some err), w1)
      | (Returns None, w1) \<Rightarrow> (Inr (True, None), w1))"

text \<open>
  An attempt has failed when it returned an error: the loop goes on only then.
\<close>

fun failed :: "result \<Rightarrow> bool" where
  "failed (Returns (Some err)) = True"
| "failed (Returns None) = False"
| "failed (Panics p) = False"

text \<open>
  The world in which attempt number \<open>k + 1\<close> of a loop starts, when each attempt before
  it has been followed by one wait of the whole delay.
\<close>

fun before_attempt ::
  "(('b, 'v, 't) world \<Rightarrow> result \<times> ('b, 'v, 't) world) \<Rightarrow> Duration \<Rightarrow> nat
     \<Rightarrow> ('b, 'v, 't) world \<Rightarrow> ('b, 'v, 't) world" where
  "before_attempt fn delay 0 w = w"
| "before_attempt fn delay (Suc k) w =
     before_attempt fn delay k (snd (fn w)\<lparr>waits := waits (snd (fn w)) @ [Slept delay]\<rparr>)"

text \<open>
  What a caller can observe of a world after a call: everything but the log.
\<close>

definition observable :: "('b, 'v, 't) world \<Rightarrow> 't \<times> 'v \<times> wait list" where
  "observable w = (transport w, pointee w, waits w)"

text \<open>
  A scripted transport, as a test would plug in for \<open>api.Transport\<close>: its state is the
  list of outcomes still to come, one for each round trip.
\<close>

fun scripted_Do ::
  "Duration \<Rightarrow> Request \<Rightarrow> (string + Response) list
     \<Rightarrow> (string + Response) \<times> (string + Response) list" where
  "scripted_Do timeout req [] = (Inl ''EOF'', [])"
| "scripted_Do timeout req (out # outs) = (out, outs)"


text \<open>
  Stand-ins for the standard library in the concrete runs below: the body is a string that
  marshals to itself, the destination holds a truth value. A URL \<open>scheme://host/path?query\<close>
  is split at its delimiters and a query at \<open>&\<close> and \<open>=\<close>, without unescaping, which is
  what the library does for the URLs of the runs. The decoder and the scanner know the
  documents of the runs, for which they give what the library gives, and have an error
  for any other. A read of a body that has failed fails again in the same way.
\<close>

fun cut :: "char \<Rightarrow> string \<Rightarrow> string \<times> string option" where
  "cut sep [] = ([], None)"
| "cut sep (c # cs) =
     (if c = sep then ([], Some cs)
      else (case cut sep cs of (before, after) \<Rightarrow> (c # before, after)))"

definition run_Parse :: "string \<Rightarrow> URL" where
  "run_Parse rawURL =
     (case cut CHR ''?'' rawURL of
        (front, query) \<Rightarrow>
          (let rest = drop 3 (dropWhile (\<lambda>c. c \<noteq> CHR '':'') front)
           in \<lparr>Scheme = takeWhile (\<lambda>c. c \<noteq> CHR '':'') front,
               Host = takeWhile (\<lambda>c. c \<noteq> CHR ''/'') rest,
               Path = dropWhile (\<lambda>c. c \<noteq> CHR ''/'') rest,
               RawQuery = (case query of None \<Rightarrow> [] | Some q \<Rightarrow> q)\<rparr>))"

fun splitOn :: "char \<Rightarrow> string \<Rightarrow> string list" where
  "splitOn sep [] = [[]]"
| "splitOn sep (c # cs) =
     (if c = sep then [] # splitOn sep cs
      else (case splitOn sep cs of
              [] \<Rightarrow> [[c]]
            | piece # pieces \<Rightarrow> (c # piece) # pieces))"

definition run_ParseQuery :: "string \<Rightarrow> Values" where
  "run_ParseQuery raw =
     fold (\<lambda>piece q.
             if piece = [] then q
             else (case cut CHR ''='' piece of
                     (k, v) \<Rightarrow>
                       AList.update k
                         ((case map_of q k of None \<Rightarrow> [] | Some vs \<Rightarrow> vs)
                            @ [case v of None \<Rightarrow> [] | Some x \<Rightarrow> x])
                         q))
          (splitOn CHR ''&'' raw) []"

definition run_decode :: "bytes \<Rightarrow> bool \<Rightarrow> string option \<times> bool" where
  "run_decode data v =
     (if data = ''true'' then (None, True)
      else if data = ''false'' then (None, False)
      else (Some ''invalid character'', v))"

definition notFound :: bytes where
  \<open>notFound = ''{"status":404,"type":"about:blank","title":"Resource Not Found","detail":"gone"}''\<close>

definition statusAsString :: bytes where
  \<open>statusAsString = ''{"status":"404","title":"Resource Not Found"}''\<close>

definition run_value :: "bytes \<Rightarrow> string + json" where
  "run_value data =
     (if data = notFound
      then Inr (JObject [(''status'', JNumber ''404''), (''type'', JString ''about:blank''),
                         (''title'', JString ''Resource Not Found''),
                         (''detail'', JString ''gone'')])
      else if data = statusAsString
      then Inr (JObject [(''status'', JString ''404''), (''title'', JString ''Resource Not Found'')])
      else if data = ''{}'' then Inr (JObject [])
      else if data = ''null'' then Inr JNull
      else if data = ''[]'' then Inr (JArray [])
      else if data = ''<html>''
      then Inl ''invalid character '<' looking for beginning of value''
      else Inl ''not a document of these runs'')"

definition run_lib :: "(string, bool, (string + Response) list) stdlib" where
  "run_lib =
     \<lparr>json_Marshal = (\<lambda>b. Inr b),
      json_decode = run_decode,
      json_value = run_value,
      http_NewRequest = (\<lambda>method url body.
         Inr \<lparr>Method = method, ReqURL = run_Parse url, Header = [], ReqBody = body\<rparr>),
      url_ParseQuery = run_ParseQuery,
      http_Do = scripted_Do,
      body_ReadAgain = (\<lambda>t resp. Body resp)\<rparr>"



definition run_world :: "(string + Response) list \<Rightarrow> (string, bool, (string + Response) list) world" where
  "run_world outs = \<lparr>transport = outs, pointee = False, logs = [], waits = []\<rparr>"

text \<open>
  The spec's words for the shape of an error payload: a JSON object with at least
  \<open>status\<close>, a number, \<open>type\<close> and \<open>title\<close>, strings, and \<open>detail\<close>, a string, if it is
  there.
\<close>

definition hasShape :: "json \<Rightarrow> bool" where
  "hasShape j =
     (case j of
        JObject ms \<Rightarrow>
          (case map_of ms ''status'' of Some (JNumber lit) \<Rightarrow> True | _ \<Rightarrow> False) \<and>
          (case map_of ms ''type'' of Some (JString s) \<Rightarrow> True | _ \<Rightarrow> False) \<and>
          (case map_of ms ''title'' of Some (JString s) \<Rightarrow> True | _ \<Rightarrow> False) \<and>
          (case map_of ms ''detail'' of
             None \<Rightarrow> True
           | Some (JString s) \<Rightarrow> True
           | _ \<Rightarrow> False)
      | _ \<Rightarrow> False)"

text \<open>
  What the decoder takes: a member fits when its name is none of a field, when it is
  \<open>null\<close>, or when it is of the type of the field of its name, for \<open>status\<close> a number
  whose literal is an integer of 64 bits. The member of a field is the last one of the
  field's name that is not \<open>null\<close>.
\<close>

definition fits :: "string \<times> json \<Rightarrow> bool" where
  "fits kv =
     (case kv of
        (k, v) \<Rightarrow>
          if foldName k = ''STATUS''
          then (case v of JNull \<Rightarrow> True | JNumber lit \<Rightarrow> ParseInt lit \<noteq> None | _ \<Rightarrow> False)
          else if foldName k = ''TYPE'' \<or> foldName k = ''TITLE'' \<or> foldName k = ''DETAIL''
          then (case v of JNull \<Rightarrow> True | JString s \<Rightarrow> True | _ \<Rightarrow> False)
          else True)"

definition member :: "string \<Rightarrow> (string \<times> json) list \<Rightarrow> json option" where
  "member name ms =
     map_option snd (find (\<lambda>(k, v). foldName k = name \<and> v \<noteq> JNull) (rev ms))"

definition intOf :: "json option \<Rightarrow> int" where
  "intOf v =
     (case v of
        Some (JNumber lit) \<Rightarrow> (case ParseInt lit of Some n \<Rightarrow> n | None \<Rightarrow> 0)
      | _ \<Rightarrow> 0)"

definition stringOf :: "json option \<Rightarrow> string" where
  "stringOf v = (case v of Some (JString s) \<Rightarrow> s | _ \<Rightarrow> [])"

section \<open>The datacenter token\<close>

lemma not_word_hyphen: "\<not> isWordChar CHR ''-''"
  by (simp add: isWordChar_def isAlnum_def)

lemma matchAt_Plus_Word:
  "matchAt [Plus WordClass] s =
     (if s \<noteq> [] \<and> list_all isWordChar s then Some (length s) else None)"
  by (induction s) (auto split: option.splits)

lemma matchAt_DatacenterRegex:
  "matchAt DatacenterRegex (c # cs) =
     (if c \<noteq> CHR ''-'' \<and> cs \<noteq> [] \<and> list_all isWordChar cs
      then Some (Suc (length cs)) else None)"
  by (simp add: DatacenterRegex_def matchAt_Plus_Word)

lemma datacenter_Cons:
  "datacenter (c # cs) =
     (if c \<noteq> CHR ''-'' \<and> cs \<noteq> [] \<and> list_all isWordChar cs then c # cs
      else datacenter cs)"
  by (simp add: datacenter_def matchAt_DatacenterRegex)

lemma datacenter_Nil: "datacenter [] = []"
  by (simp add: datacenter_def)

lemma datacenter_skip:
  "\<not> isWordChar x \<Longrightarrow> datacenter (p @ x # s) = datacenter (x # s)"
  by (induction p) (auto simp: datacenter_Cons)

lemma datacenter_word_run:
  "list_all isWordChar s \<Longrightarrow> 2 \<le> length s \<Longrightarrow> datacenter s = s"
  using not_word_hyphen by (cases s) (auto simp: datacenter_Cons)

lemma datacenter_after_hyphen:
  "datacenter (CHR ''-'' # s) = datacenter s"
  by (simp add: datacenter_Cons)

lemma datacenter_single: "datacenter [x] = []"
  by (simp add: datacenter_Cons datacenter_Nil)

lemma trailingWordRun_all: "list_all isWordChar s \<Longrightarrow> trailingWordRun s = s"
proof -
  assume "list_all isWordChar s"
  then have "takeWhile isWordChar (rev s) = rev s"
    by (simp add: list_all_iff)
  then show ?thesis
    unfolding trailingWordRun_def by (simp only: rev_rev_ident)
qed

lemma trailingWordRun_after:
  "\<not> isWordChar c \<Longrightarrow> list_all isWordChar w \<Longrightarrow> trailingWordRun (p @ c # w) = w"
proof -
  assume c: "\<not> isWordChar c" and w: "list_all isWordChar w"
  have "takeWhile isWordChar (rev w @ c # rev p) = takeWhile isWordChar (rev w)"
    using c by (rule takeWhile_tail)
  also have "\<dots> = rev w"
    using w by (simp add: list_all_iff)
  finally show ?thesis
    unfolding trailingWordRun_def
    by (simp only: rev_append rev.simps rev_rev_ident append.simps append_assoc)
qed

text \<open>
  C1, as the code has it. The pattern \<open>[^-]\w+$\<close> needs one character that is not a hyphen
  and then at least one word character. For a key \<open>prefix-suffix\<close> whose suffix is a run of
  two or more word characters, the token is the suffix; a suffix of one word character
  gives the empty token. For a key without a hyphen: when the key is a run of two or more
  word characters, the token is the key, its trailing run of word characters; when the
  trailing run is not empty and the character before it is an ASCII character that is not
  a word character, the token is that character followed by the run.
\<close>

theorem datacenter_token:
  "(list_all isWordChar suffix \<and> 2 \<le> length suffix \<longrightarrow>
      datacenter (prefix @ ''-'' @ suffix) = suffix) \<and>
   (isWordChar x \<longrightarrow> datacenter (prefix @ ''-'' @ [x]) = []) \<and>
   (CHR ''-'' \<notin> set s \<and> list_all isWordChar s \<and> 2 \<le> length s \<longrightarrow>
      datacenter s = s \<and> trailingWordRun s = s) \<and>
   (CHR ''-'' \<notin> set (p @ c # w) \<and> (of_char c :: nat) < 128 \<and> \<not> isWordChar c \<and> w \<noteq> [] \<and>
    list_all isWordChar w \<longrightarrow>
      datacenter (p @ c # w) = c # w \<and> trailingWordRun (p @ c # w) = w)"
proof (intro conjI impI)
  assume "list_all isWordChar suffix \<and> 2 \<le> length suffix"
  then show "datacenter (prefix @ ''-'' @ suffix) = suffix"
    using datacenter_skip [OF not_word_hyphen, of prefix suffix]
    by (simp add: datacenter_after_hyphen datacenter_word_run)
next
  show "datacenter (prefix @ ''-'' @ [x]) = []"
    using datacenter_skip [OF not_word_hyphen, of prefix "[x]"]
    by (simp add: datacenter_after_hyphen datacenter_single)
next
  assume "CHR ''-'' \<notin> set s \<and> list_all isWordChar s \<and> 2 \<le> length s"
  then show "datacenter s = s" by (simp add: datacenter_word_run)
next
  assume "CHR ''-'' \<notin> set s \<and> list_all isWordChar s \<and> 2 \<le> length s"
  then show "trailingWordRun s = s" by (simp add: trailingWordRun_all)
next
  assume "CHR ''-'' \<notin> set (p @ c # w) \<and> (of_char c :: nat) < 128 \<and> \<not> isWordChar c \<and> w \<noteq> [] \<and>
    list_all isWordChar w"
  then show "datacenter (p @ c # w) = c # w"
    using datacenter_skip [of c p w] by (auto simp: datacenter_Cons)
next
  assume "CHR ''-'' \<notin> set (p @ c # w) \<and> (of_char c :: nat) < 128 \<and> \<not> isWordChar c \<and> w \<noteq> [] \<and>
    list_all isWordChar w"
  then show "trailingWordRun (p @ c # w) = w" by (simp add: trailingWordRun_after)
qed

theorem datacenter_token_witness:
  "datacenter (''abc123'' @ ''-'' @ ''us6'') = ''us6'' \<and>
   datacenter (''abc123'' @ ''-'' @ ''6'') = [] \<and>
   datacenter ''us6'' = ''us6'' \<and> trailingWordRun ''us6'' = ''us6'' \<and>
   datacenter (''ab'' @ CHR ''.'' # ''cd'') = ''.cd'' \<and>
   trailingWordRun (''ab'' @ CHR ''.'' # ''cd'') = ''cd''"
  using datacenter_token [of "''us6''" "''abc123''" "CHR ''6''" "''us6''" "''ab''" "CHR ''.''" "''cd''"]
  by (simp add: isWordChar_def isAlnum_def)

text \<open>
  C1 as the spec states it fails twice: the key \<open>abc-x\<close> has the suffix \<open>x\<close>, a run of
  word characters that is not empty, and its token is empty; the key \<open>ab.cd\<close> has no
  hyphen, its trailing run of word characters is \<open>cd\<close>, and its token is \<open>.cd\<close>.
\<close>

theorem datacenter_token_counterexample:
  "''x'' \<noteq> [] \<and> list_all isWordChar ''x'' \<and> datacenter (''abc'' @ ''-'' @ ''x'') = [] \<and>
   datacenter (''abc'' @ ''-'' @ ''x'') \<noteq> ''x'' \<and>
   CHR ''-'' \<notin> set ''ab.cd'' \<and> trailingWordRun ''ab.cd'' = ''cd'' \<and>
   datacenter ''ab.cd'' = ''.cd'' \<and> datacenter ''ab.cd'' \<noteq> trailingWordRun ''ab.cd''"
  by (simp add: datacenter_def DatacenterRegex_def isWordChar_def isAlnum_def
      trailingWordRun_def)

text \<open>\<open>New\<close> puts the token, and nothing else of the key, into the endpoint.\<close>

lemma endpoint_New:
  "endpoint (New apiKey) =
     ''https://'' @ escapeHost (datacenter apiKey @ ''.api.mailchimp.com'') @ ''/3.0''"
  by (simp add: New_def URL_String_def URIFormat_def Version_def)

text \<open>The scenario of the spec: the key \<open>abc123-us6\<close> gives the host \<open>us6.api.mailchimp.com\<close>.\<close>

lemma New_endpoint_us6:
  "endpoint (New ''abc123-us6'') = ''https://us6.api.mailchimp.com/3.0''"
  by (simp add: New_def URL_String_def escapeHost_def shouldEscapeHost_def URIFormat_def
      Version_def datacenter_def DatacenterRegex_def isWordChar_def isAlnum_def)

section \<open>What \<open>rawRequest\<close> makes of a response\<close>

lemma rawRequest_on_response:
  assumes "outgoingRequest lib api method path params body = (l, Inr req)"
    and "http_Do lib (clientTimeout api) req (transport w) = (Inr resp, t)"
    and "Body resp = Inr data"
  shows "rawRequest lib api method path params body response w =
    (let w1 = w\<lparr>transport := t,
                logs := logs w @ l @ (if Debug api then [DumpResponse resp] else [])\<rparr>
     in if 200 \<le> StatusCode resp \<and> StatusCode resp < 300
        then (case skipUnmarshal response data of
                Inl p \<Rightarrow> (Panics p, w1)
              | Inr True \<Rightarrow> (Returns None, w1)
              | Inr False \<Rightarrow>
                  (case json_Unmarshal (json_decode lib) data (pointee w1) of
                     (err, v) \<Rightarrow> (Returns err, w1\<lparr>pointee := v\<rparr>)))
        else (case parseAPIError lib data w1 of (err, w2) \<Rightarrow> (Returns (Some err), w2)))"
  using assms
  by (simp add: rawRequest_def Let_def httputil_DumpResponse_def
      cong: sum.case_cong bool.case_cong)

lemma rawRequest_non2xx:
  assumes "outgoingRequest lib api method path params body = (l, Inr req)"
    and "http_Do lib (clientTimeout api) req (transport w) = (Inr resp, t)"
    and "Body resp = Inr data"
    and "\<not> (200 \<le> StatusCode resp \<and> StatusCode resp < 300)"
  shows "fst (rawRequest lib api method path params body response w) =
           Returns (Some (fst (parseAPIError lib data
             (w\<lparr>transport := t,
                logs := logs w @ l @ (if Debug api then [DumpResponse resp] else [])\<rparr>))))"
  unfolding rawRequest_on_response [OF assms(1-3)] Let_def
  using assms(4) by (simp only: if_False case_prod_beta fst_conv)

lemma rawRequest_2xx:
  assumes "outgoingRequest lib api method path params body = (l, Inr req)"
    and "http_Do lib (clientTimeout api) req (transport w) = (Inr resp, t)"
    and "Body resp = Inr data"
    and "200 \<le> StatusCode resp" and "StatusCode resp < 300"
  shows "rawRequest lib api method path params body response w =
    (let w1 = w\<lparr>transport := t,
                logs := logs w @ l @ (if Debug api then [DumpResponse resp] else [])\<rparr>
     in case skipUnmarshal response data of
          Inl p \<Rightarrow> (Panics p, w1)
        | Inr True \<Rightarrow> (Returns None, w1)
        | Inr False \<Rightarrow>
            (case json_Unmarshal (json_decode lib) data (pointee w1) of
               (err, v) \<Rightarrow> (Returns err, w1\<lparr>pointee := v\<rparr>)))"
  unfolding rawRequest_on_response [OF assms(1-3)]
  using assms(4,5) by simp


lemma fst_parseAPIError:
  "fst (parseAPIError lib data w) =
     (if data = [] then JSONError ''unexpected end of JSON input''
      else (case decode_APIError lib data new_APIError of
              (None, a) \<Rightarrow> APIErr a
            | (Some m, a) \<Rightarrow> JSONError m))"
  by (simp add: parseAPIError_def json_Unmarshal_def Let_def split: prod.splits option.splits)

lemmas run_defs = run_lib_def run_world_def run_decode_def run_value_def
  run_Parse_def run_ParseQuery_def outgoingRequest_def marshalBody_def Let_def

lemma Timeout_New: "clientTimeout (New apiKey) = 0"
  by (simp add: clientTimeout_def New_def)

lemma Debug_New: "Debug (New apiKey) = False"
  by (simp add: New_def)

subsection \<open>The decoder of the error payload\<close>

lemma member_Nil: "member name [] = None"
  by (simp add: member_def)

lemma member_snoc:
  "member name (ms @ [(k, v)]) =
     (if foldName k = name \<and> v \<noteq> JNull then Some v else member name ms)"
  by (simp add: member_def)

lemma storeMember_fits:
  assumes "fits (k, v)"
  shows "storeMember k v (None, a) =
     (None,
      a\<lparr>Status := (if foldName k = ''STATUS'' \<and> v \<noteq> JNull then intOf (Some v) else Status a),
        Type := (if foldName k = ''TYPE'' \<and> v \<noteq> JNull then stringOf (Some v) else Type a),
        Title := (if foldName k = ''TITLE'' \<and> v \<noteq> JNull then stringOf (Some v) else Title a),
        Detail := (if foldName k = ''DETAIL'' \<and> v \<noteq> JNull then stringOf (Some v) else Detail a)\<rparr>)"
  using assms
  by (cases v) (auto simp: fits_def storeMember_def intOf_def stringOf_def split: if_splits)

lemma unmarshal_members_fit:
  "list_all fits ms \<Longrightarrow>
   fold (\<lambda>(k, v). storeMember k v) ms (None, new_APIError) =
     (None, \<lparr>Status = intOf (member ''STATUS'' ms), Type = stringOf (member ''TYPE'' ms),
             Title = stringOf (member ''TITLE'' ms), Detail = stringOf (member ''DETAIL'' ms)\<rparr>)"
proof (induction ms rule: rev_induct)
  case Nil
  show ?case
    by (simp add: member_Nil intOf_def stringOf_def new_APIError_def)
next
  case (snoc kv ms)
  obtain k v where kv: "kv = (k, v)" by (cases kv)
  from snoc.prems kv have all: "list_all fits ms" and one: "fits (k, v)"
    by simp_all
  show ?case
    by (simp add: kv snoc.IH [OF all] storeMember_fits [OF one] member_snoc)
qed

lemma storeMember_error_stays:
  "fst st \<noteq> None \<Longrightarrow> fst (storeMember k v st) \<noteq> None"
  by (cases st; cases v)
    (auto simp: storeMember_def saveError_def split: option.splits)

lemma storeMember_mismatch:
  "\<not> fits (k, v) \<Longrightarrow> fst (storeMember k v st) \<noteq> None"
  by (cases st; cases v)
    (auto simp: fits_def storeMember_def saveError_def split: option.splits if_splits)

lemma unmarshal_error_stays:
  "fst st \<noteq> None \<Longrightarrow> fst (fold (\<lambda>(k, v). storeMember k v) ms st) \<noteq> None"
proof (induction ms arbitrary: st)
  case Nil
  then show ?case by simp
next
  case (Cons kv ms)
  obtain k v where kv: "kv = (k, v)" by (cases kv)
  show ?case
    using Cons.IH [OF storeMember_error_stays [OF Cons.prems, of k v]]
    by (simp add: kv)
qed

lemma unmarshal_member_mismatch:
  "\<not> list_all fits ms \<Longrightarrow> fst (fold (\<lambda>(k, v). storeMember k v) ms st) \<noteq> None"
proof (induction ms arbitrary: st)
  case Nil
  then show ?case by simp
next
  case (Cons kv ms)
  obtain k v where kv: "kv = (k, v)" by (cases kv)
  show ?case
  proof (cases "fits (k, v)")
    case True
    with Cons.prems kv have "\<not> list_all fits ms" by simp
    from Cons.IH [OF this] show ?thesis by (simp add: kv)
  next
    case False
    from unmarshal_error_stays [OF storeMember_mismatch [OF False, of st], of ms]
    show ?thesis by (simp add: kv)
  qed
qed

lemma fst_parseAPIError_value:
  assumes "data \<noteq> []"
  shows "fst (parseAPIError lib data w) =
     (case json_value lib data of
        Inl m \<Rightarrow> JSONError m
      | Inr j \<Rightarrow>
          (case unmarshal_APIError j new_APIError of
             (None, a) \<Rightarrow> APIErr a
           | (Some m, a) \<Rightarrow> JSONError m))"
  using assms
  by (simp add: fst_parseAPIError decode_APIError_def split: sum.splits)

text \<open>
  C4, as the code has it. A response whose status is not 2xx, with a body that is not
  empty. When the body is not well-formed JSON, the error returned is the error of the
  scanner. When the body is \<open>null\<close>, the error returned is the \<open>APIError\<close> with every
  field zero. When the body is an object all of whose members fit, the error returned is
  the \<open>APIError\<close> whose status, type, title and detail are those of the members of these
  names, and zero where there is none: for \<open>{}\<close> every field is zero. When a member does
  not fit, or the body is another kind of value, the error returned is the error of the
  decoder.
\<close>

theorem rawRequest_error_response:
  assumes "outgoingRequest lib api method path params body = (l, Inr req)"
    and "http_Do lib (clientTimeout api) req (transport w) = (Inr resp, t)"
    and "Body resp = Inr data"
    and "\<not> (200 \<le> StatusCode resp \<and> StatusCode resp < 300)"
    and "data \<noteq> []"
  shows "(json_value lib data = Inl m \<longrightarrow>
            fst (rawRequest lib api method path params body response w) =
              Returns (Some (JSONError m))) \<and>
         (json_value lib data = Inr JNull \<longrightarrow>
            fst (rawRequest lib api method path params body response w) =
              Returns (Some (APIErr \<lparr>Status = 0, Type = [], Title = [], Detail = []\<rparr>))) \<and>
         (json_value lib data = Inr (JObject ms) \<and> list_all fits ms \<longrightarrow>
            fst (rawRequest lib api method path params body response w) =
              Returns (Some (APIErr
                \<lparr>Status = intOf (member ''STATUS'' ms), Type = stringOf (member ''TYPE'' ms),
                 Title = stringOf (member ''TITLE'' ms),
                 Detail = stringOf (member ''DETAIL'' ms)\<rparr>))) \<and>
         (json_value lib data = Inr (JObject ms) \<and> \<not> list_all fits ms \<longrightarrow>
            (\<exists>e. fst (rawRequest lib api method path params body response w) =
               Returns (Some (JSONError e)))) \<and>
         (json_value lib data = Inr j \<and> j \<noteq> JNull \<and> (\<forall>ms. j \<noteq> JObject ms) \<longrightarrow>
            (\<exists>e. fst (rawRequest lib api method path params body response w) =
               Returns (Some (JSONError e))))"
proof -
  note r = rawRequest_non2xx [OF assms(1-4)] fst_parseAPIError_value [OF assms(5)]
  have scanner: "json_value lib data = Inl m \<longrightarrow>
      fst (rawRequest lib api method path params body response w) = Returns (Some (JSONError m))"
    by (simp add: r)
  have null: "json_value lib data = Inr JNull \<longrightarrow>
      fst (rawRequest lib api method path params body response w) =
        Returns (Some (APIErr \<lparr>Status = 0, Type = [], Title = [], Detail = []\<rparr>))"
    by (simp add: r unmarshal_APIError_def new_APIError_def)
  have fit: "json_value lib data = Inr (JObject ms) \<and> list_all fits ms \<longrightarrow>
      fst (rawRequest lib api method path params body response w) =
        Returns (Some (APIErr
          \<lparr>Status = intOf (member ''STATUS'' ms), Type = stringOf (member ''TYPE'' ms),
           Title = stringOf (member ''TITLE'' ms), Detail = stringOf (member ''DETAIL'' ms)\<rparr>))"
    by (simp add: r unmarshal_APIError_def unmarshal_members_fit)
  have misfit: "json_value lib data = Inr (JObject ms) \<and> \<not> list_all fits ms \<longrightarrow>
      (\<exists>e. fst (rawRequest lib api method path params body response w) =
         Returns (Some (JSONError e)))"
  proof
    assume a: "json_value lib data = Inr (JObject ms) \<and> \<not> list_all fits ms"
    then obtain e a' where "fold (\<lambda>(k, v). storeMember k v) ms (None, new_APIError) = (Some e, a')"
      using unmarshal_member_mismatch [of ms "(None, new_APIError)"]
      by (cases "fold (\<lambda>(k, v). storeMember k v) ms (None, new_APIError)") auto
    with a show "\<exists>e. fst (rawRequest lib api method path params body response w) =
         Returns (Some (JSONError e))"
      by (simp add: r unmarshal_APIError_def)
  qed
  have other: "json_value lib data = Inr j \<and> j \<noteq> JNull \<and> (\<forall>ms. j \<noteq> JObject ms) \<longrightarrow>
      (\<exists>e. fst (rawRequest lib api method path params body response w) =
         Returns (Some (JSONError e)))"
    by (cases j) (simp_all add: r unmarshal_APIError_def)
  from scanner null fit misfit other show ?thesis by blast
qed

lemma notFound_members:
  "fits (''status'', JNumber ''404'')" "fits (''type'', JString ''about:blank'')"
  "fits (''title'', JString ''Resource Not Found'')" "fits (''detail'', JString ''gone'')"
  "intOf (member ''STATUS'' [(''status'', JNumber ''404''), (''type'', JString ''about:blank''),
                  (''title'', JString ''Resource Not Found''), (''detail'', JString ''gone'')]) = 404"
  "stringOf (member ''TYPE'' [(''status'', JNumber ''404''), (''type'', JString ''about:blank''),
                  (''title'', JString ''Resource Not Found''), (''detail'', JString ''gone'')]) =
     ''about:blank''"
  "stringOf (member ''TITLE'' [(''status'', JNumber ''404''), (''type'', JString ''about:blank''),
                  (''title'', JString ''Resource Not Found''), (''detail'', JString ''gone'')]) =
     ''Resource Not Found''"
  "stringOf (member ''DETAIL'' [(''status'', JNumber ''404''), (''type'', JString ''about:blank''),
                  (''title'', JString ''Resource Not Found''), (''detail'', JString ''gone'')]) =
     ''gone''"
  "\<not> fits (''status'', JString ''404'')"
  by code_simp+

theorem rawRequest_error_response_witness:
  "fst (rawRequest run_lib (New ''abc123-us6'') ''GET'' ''/lists/1'' NilInterface None NilInterface
          (run_world [Inr \<lparr>StatusCode = 404, Body = Inr notFound\<rparr>])) =
     Returns (Some (APIErr \<lparr>Status = 404, Type = ''about:blank'',
                           Title = ''Resource Not Found'', Detail = ''gone''\<rparr>)) \<and>
   fst (rawRequest run_lib (New ''abc123-us6'') ''GET'' ''/lists/1'' NilInterface None NilInterface
          (run_world [Inr \<lparr>StatusCode = 502, Body = Inr ''<html>''\<rparr>])) =
     Returns (Some (JSONError ''invalid character '<' looking for beginning of value'')) \<and>
   fst (rawRequest run_lib (New ''abc123-us6'') ''GET'' ''/lists/1'' NilInterface None NilInterface
          (run_world [Inr \<lparr>StatusCode = 500, Body = Inr ''null''\<rparr>])) =
     Returns (Some (APIErr \<lparr>Status = 0, Type = [], Title = [], Detail = []\<rparr>)) \<and>
   (\<exists>e. fst (rawRequest run_lib (New ''abc123-us6'') ''GET'' ''/lists/1'' NilInterface None
               NilInterface (run_world [Inr \<lparr>StatusCode = 404, Body = Inr statusAsString\<rparr>])) =
          Returns (Some (JSONError e))) \<and>
   (\<exists>e. fst (rawRequest run_lib (New ''abc123-us6'') ''GET'' ''/lists/1'' NilInterface None
               NilInterface (run_world [Inr \<lparr>StatusCode = 400, Body = Inr ''[]''\<rparr>])) =
          Returns (Some (JSONError e)))"
proof -
  obtain l req where out:
    "outgoingRequest run_lib (New ''abc123-us6'') ''GET'' ''/lists/1'' NilInterface None = (l, Inr req)"
    by (simp add: run_defs Debug_New)
  have docs: "notFound \<noteq> []" "statusAsString \<noteq> []" "statusAsString \<noteq> notFound"
    by (simp_all add: notFound_def statusAsString_def)
  show ?thesis
    using rawRequest_error_response [OF out,
        where w = "run_world [Inr \<lparr>StatusCode = 404, Body = Inr notFound\<rparr>]"
          and resp = "\<lparr>StatusCode = 404, Body = Inr notFound\<rparr>" and t = "[]"
          and data = notFound and response = NilInterface
          and ms = "[(''status'', JNumber ''404''), (''type'', JString ''about:blank''),
                     (''title'', JString ''Resource Not Found''), (''detail'', JString ''gone'')]"]
      rawRequest_error_response [OF out,
        where w = "run_world [Inr \<lparr>StatusCode = 502, Body = Inr ''<html>''\<rparr>]"
          and resp = "\<lparr>StatusCode = 502, Body = Inr ''<html>''\<rparr>" and t = "[]"
          and data = "''<html>''" and response = NilInterface
          and m = "''invalid character '<' looking for beginning of value''"]
      rawRequest_error_response [OF out,
        where w = "run_world [Inr \<lparr>StatusCode = 500, Body = Inr ''null''\<rparr>]"
          and resp = "\<lparr>StatusCode = 500, Body = Inr ''null''\<rparr>" and t = "[]"
          and data = "''null''" and response = NilInterface]
      rawRequest_error_response [OF out,
        where w = "run_world [Inr \<lparr>StatusCode = 404, Body = Inr statusAsString\<rparr>]"
          and resp = "\<lparr>StatusCode = 404, Body = Inr statusAsString\<rparr>" and t = "[]"
          and data = statusAsString and response = NilInterface
          and ms = "[(''status'', JString ''404''), (''title'', JString ''Resource Not Found'')]"]
      rawRequest_error_response [OF out,
        where w = "run_world [Inr \<lparr>StatusCode = 400, Body = Inr ''[]''\<rparr>]"
          and resp = "\<lparr>StatusCode = 400, Body = Inr ''[]''\<rparr>" and t = "[]"
          and data = "''[]''" and response = NilInterface and j = "JArray []"]
    by (simp add: Timeout_New docs notFound_members run_lib_def run_world_def run_value_def
        notFound_def statusAsString_def)
qed

text \<open>
  C4 as it is written fails: the bodies \<open>{}\<close> and \<open>null\<close> have not the shape of an error
  payload, which has a status, a type and a title, and for both \<open>rawRequest\<close> returns the
  \<open>APIError\<close> with every field zero, not an error of the decoder.
\<close>

theorem rawRequest_error_response_counterexample:
  "\<not> hasShape (JObject []) \<and> \<not> hasShape JNull \<and>
   run_value ''{}'' = Inr (JObject []) \<and> run_value ''null'' = Inr JNull \<and>
   fst (rawRequest run_lib (New ''abc123-us6'') ''GET'' ''/lists/1'' NilInterface None NilInterface
          (run_world [Inr \<lparr>StatusCode = 500, Body = Inr ''{}''\<rparr>])) =
     Returns (Some (APIErr \<lparr>Status = 0, Type = [], Title = [], Detail = []\<rparr>)) \<and>
   fst (rawRequest run_lib (New ''abc123-us6'') ''GET'' ''/lists/1'' NilInterface None NilInterface
          (run_world [Inr \<lparr>StatusCode = 500, Body = Inr ''null''\<rparr>])) =
     Returns (Some (APIErr \<lparr>Status = 0, Type = [], Title = [], Detail = []\<rparr>))"
proof -
  obtain l req where out:
    "outgoingRequest run_lib (New ''abc123-us6'') ''GET'' ''/lists/1'' NilInterface None = (l, Inr req)"
    by (simp add: run_defs Debug_New)
  have empty: "fst (parseAPIError run_lib ''{}'' w) = APIErr new_APIError" for w
    by (simp add: fst_parseAPIError_value run_lib_def run_value_def notFound_def
        statusAsString_def unmarshal_APIError_def)
  have null: "fst (parseAPIError run_lib ''null'' w) = APIErr new_APIError" for w
    by (simp add: fst_parseAPIError_value run_lib_def run_value_def notFound_def
        statusAsString_def unmarshal_APIError_def)
  have shape: "\<not> hasShape (JObject [])" "\<not> hasShape JNull"
    by (simp_all add: hasShape_def)
  have docs: "run_value ''{}'' = Inr (JObject [])" "run_value ''null'' = Inr JNull"
    by (simp_all add: run_value_def notFound_def statusAsString_def)
  have a: "fst (rawRequest run_lib (New ''abc123-us6'') ''GET'' ''/lists/1'' NilInterface None
              NilInterface (run_world [Inr \<lparr>StatusCode = 500, Body = Inr ''{}''\<rparr>])) =
            Returns (Some (APIErr new_APIError))"
    by (subst rawRequest_non2xx [OF out, where resp = "\<lparr>StatusCode = 500, Body = Inr ''{}''\<rparr>"
          and t = "[]" and data = "''{}''"])
      (simp_all add: Timeout_New run_lib_def run_world_def empty [unfolded run_lib_def])
  have b: "fst (rawRequest run_lib (New ''abc123-us6'') ''GET'' ''/lists/1'' NilInterface None
              NilInterface (run_world [Inr \<lparr>StatusCode = 500, Body = Inr ''null''\<rparr>])) =
            Returns (Some (APIErr new_APIError))"
    by (subst rawRequest_non2xx [OF out, where resp = "\<lparr>StatusCode = 500, Body = Inr ''null''\<rparr>"
          and t = "[]" and data = "''null''"])
      (simp_all add: Timeout_New run_lib_def run_world_def null [unfolded run_lib_def])
  from shape docs a b show ?thesis
    by (simp add: new_APIError_def)
qed

lemma skipUnmarshal_simps:
  "skipUnmarshal NilInterface data = Inr True"
  "skipUnmarshal TypedNil data = Inr True"
  "skipUnmarshal (NonNil u) data = Inr (data = [])"
  "skipUnmarshal (NonNilable u) data = Inl ''reflect: call of reflect.Value.IsNil on struct Value''"
  by (simp_all add: skipUnmarshal_def)

text \<open>
  C5. A 2xx response whose body was read. When the response destination is the nil
  interface or a typed nil, \<open>rawRequest\<close> returns nil and the destination is as it was,
  whatever the body and whatever the decoder would make of it. When the destination is a
  pointer that is not nil and the body is empty, it returns nil and the destination is as
  it was.
\<close>

theorem rawRequest_success_without_decoding:
  assumes "outgoingRequest lib api method path params body = (l, Inr req)"
    and "http_Do lib (clientTimeout api) req (transport w) = (Inr resp, t)"
    and "Body resp = Inr data"
    and "200 \<le> StatusCode resp" and "StatusCode resp < 300"
  shows "response = NilInterface \<or> response = TypedNil \<or> (response = NonNil u \<and> data = []) \<longrightarrow>
           fst (rawRequest lib api method path params body response w) = Returns None \<and>
           pointee (snd (rawRequest lib api method path params body response w)) = pointee w"
  by (auto simp: rawRequest_2xx [OF assms] skipUnmarshal_simps Let_def)

theorem rawRequest_success_without_decoding_witness:
  "fst (rawRequest run_lib (New ''abc123-us6'') ''GET'' ''/lists'' NilInterface None TypedNil
          (run_world [Inr \<lparr>StatusCode = 200, Body = Inr ''rubbish''\<rparr>])) = Returns None \<and>
   pointee (snd (rawRequest run_lib (New ''abc123-us6'') ''GET'' ''/lists'' NilInterface None TypedNil
          (run_world [Inr \<lparr>StatusCode = 200, Body = Inr ''rubbish''\<rparr>]))) = False \<and>
   fst (rawRequest run_lib (New ''abc123-us6'') ''GET'' ''/lists'' NilInterface None (NonNil ())
          (run_world [Inr \<lparr>StatusCode = 204, Body = Inr []\<rparr>])) = Returns None \<and>
   pointee (snd (rawRequest run_lib (New ''abc123-us6'') ''GET'' ''/lists'' NilInterface None (NonNil ())
          (run_world [Inr \<lparr>StatusCode = 204, Body = Inr []\<rparr>]))) = False"
proof -
  obtain l req where out:
    "outgoingRequest run_lib (New ''abc123-us6'') ''GET'' ''/lists'' NilInterface None = (l, Inr req)"
    by (simp add: run_defs Debug_New)
  show ?thesis
    using rawRequest_success_without_decoding [OF out,
        where w = "run_world [Inr \<lparr>StatusCode = 200, Body = Inr ''rubbish''\<rparr>]"
          and resp = "\<lparr>StatusCode = 200, Body = Inr ''rubbish''\<rparr>" and t = "[]"
          and data = "''rubbish''" and response = TypedNil and u = "()"]
      rawRequest_success_without_decoding [OF out,
        where w = "run_world [Inr \<lparr>StatusCode = 204, Body = Inr []\<rparr>]"
          and resp = "\<lparr>StatusCode = 204, Body = Inr []\<rparr>" and t = "[]"
          and data = "[]" and response = "NonNil ()" and u = "()"]
    by (simp add: Timeout_New run_lib_def run_world_def)
qed

lemma outgoingRequest_NonNilable:
  assumes "marshalBody lib body = Inr bodyBytes"
    and "http_NewRequest lib method (endpoint api @ path) bodyBytes = Inr req0"
  shows "snd (outgoingRequest lib api method path (NonNilable m) body) =
           Inl (Panics ''reflect: call of reflect.Value.IsNil on struct Value'')"
  using assms by (simp add: outgoingRequest_def Let_def)

text \<open>
  C9. The nil checks are not total. A \<open>QueryParams\<close> value of a kind that cannot be nil
  (a struct) makes \<open>rawRequest\<close> panic in line 106, once the body is marshalled and the
  request is built; a response argument of such a kind makes it panic in line 143, once a
  2xx response is read. Neither returns an error.
\<close>

theorem IsNil_panics:
  "(marshalBody lib body = Inr bodyBytes \<and>
    http_NewRequest lib method (endpoint api @ path) bodyBytes = Inr req0 \<longrightarrow>
      fst (rawRequest lib api method path (NonNilable m) body response w) =
        Panics ''reflect: call of reflect.Value.IsNil on struct Value'') \<and>
   (outgoingRequest lib api method path params body = (l, Inr req) \<and>
    http_Do lib (clientTimeout api) req (transport w) = (Inr resp, t) \<and>
    Body resp = Inr data \<and> 200 \<le> StatusCode resp \<and> StatusCode resp < 300 \<longrightarrow>
      fst (rawRequest lib api method path params body (NonNilable u) w) =
        Panics ''reflect: call of reflect.Value.IsNil on struct Value'')"
proof (intro conjI impI)
  assume a: "marshalBody lib body = Inr bodyBytes \<and>
    http_NewRequest lib method (endpoint api @ path) bodyBytes = Inr req0"
  then have mb: "marshalBody lib body = Inr bodyBytes"
    and nr: "http_NewRequest lib method (endpoint api @ path) bodyBytes = Inr req0"
    by simp_all
  obtain l' where "outgoingRequest lib api method path (NonNilable m) body =
      (l', Inl (Panics ''reflect: call of reflect.Value.IsNil on struct Value''))"
    using outgoingRequest_NonNilable [OF mb nr, of m]
    by (cases "outgoingRequest lib api method path (NonNilable m) body") simp
  then show "fst (rawRequest lib api method path (NonNilable m) body response w) =
        Panics ''reflect: call of reflect.Value.IsNil on struct Value''"
    by (simp add: rawRequest_def)
next
  assume a: "outgoingRequest lib api method path params body = (l, Inr req) \<and>
    http_Do lib (clientTimeout api) req (transport w) = (Inr resp, t) \<and>
    Body resp = Inr data \<and> 200 \<le> StatusCode resp \<and> StatusCode resp < 300"
  then have out: "outgoingRequest lib api method path params body = (l, Inr req)"
    and do: "http_Do lib (clientTimeout api) req (transport w) = (Inr resp, t)"
    and rd: "Body resp = Inr data"
    and lo: "200 \<le> StatusCode resp" and hi: "StatusCode resp < 300"
    by simp_all
  show "fst (rawRequest lib api method path params body (NonNilable u) w) =
        Panics ''reflect: call of reflect.Value.IsNil on struct Value''"
    by (simp add: rawRequest_2xx [OF out do rd lo hi] skipUnmarshal_simps Let_def)
qed

theorem IsNil_panics_witness:
  "fst (rawRequest run_lib (New ''abc123-us6'') ''GET'' ''/lists'' (NonNilable [(''count'', ''10'')])
          None NilInterface (run_world [])) =
     Panics ''reflect: call of reflect.Value.IsNil on struct Value'' \<and>
   fst (rawRequest run_lib (New ''abc123-us6'') ''GET'' ''/lists'' NilInterface None (NonNilable ())
          (run_world [Inr \<lparr>StatusCode = 200, Body = Inr ''true''\<rparr>])) =
     Panics ''reflect: call of reflect.Value.IsNil on struct Value''"
proof -
  obtain l req where out:
    "outgoingRequest run_lib (New ''abc123-us6'') ''GET'' ''/lists'' NilInterface None = (l, Inr req)"
    by (simp add: run_defs Debug_New)
  have first: "marshalBody run_lib (None :: string option) = Inr None \<and>
      http_NewRequest run_lib ''GET'' (endpoint (New ''abc123-us6'') @ ''/lists'') None =
        Inr \<lparr>Method = ''GET'', ReqURL = run_Parse (endpoint (New ''abc123-us6'') @ ''/lists''),
             Header = [], ReqBody = None\<rparr>"
    by (simp add: marshalBody_def run_lib_def)
  have second: "outgoingRequest run_lib (New ''abc123-us6'') ''GET'' ''/lists'' NilInterface None =
        (l, Inr req) \<and>
      http_Do run_lib (clientTimeout (New ''abc123-us6'')) req
        (transport (run_world [Inr \<lparr>StatusCode = 200, Body = Inr ''true''\<rparr>])) =
        (Inr \<lparr>StatusCode = 200, Body = Inr ''true''\<rparr>, []) \<and>
      Body \<lparr>StatusCode = 200, Body = Inr ''true''\<rparr> = Inr ''true'' \<and>
      200 \<le> StatusCode \<lparr>StatusCode = 200, Body = Inr ''true''\<rparr> \<and>
      StatusCode \<lparr>StatusCode = 200, Body = Inr ''true''\<rparr> < 300"
    using out by (simp add: run_lib_def run_world_def)
  from IsNil_panics [THEN conjunct1, rule_format, OF first]
    IsNil_panics [THEN conjunct2, rule_format, OF second]
  show ?thesis by simp
qed

text \<open>
  C10. A response whose status is not 2xx and whose body is empty: \<open>rawRequest\<close> returns
  the error of \<open>json.Unmarshal\<close> for empty input, which is neither nil nor an \<open>APIError\<close>,
  and of the same kind as the error for a malformed body.
\<close>

theorem rawRequest_error_empty_body:
  assumes "outgoingRequest lib api method path params body = (l, Inr req)"
    and "http_Do lib (clientTimeout api) req (transport w) = (Inr resp, t)"
    and "Body resp = Inr []"
    and "\<not> (200 \<le> StatusCode resp \<and> StatusCode resp < 300)"
  shows "fst (rawRequest lib api method path params body response w) =
           Returns (Some (JSONError ''unexpected end of JSON input'')) \<and>
         fst (rawRequest lib api method path params body response w) \<noteq> Returns None \<and>
         (\<forall>a. fst (rawRequest lib api method path params body response w) \<noteq>
                Returns (Some (APIErr a)))"
  by (simp add: rawRequest_non2xx [OF assms] fst_parseAPIError)

theorem rawRequest_error_empty_body_witness:
  "fst (rawRequest run_lib (New ''abc123-us6'') ''GET'' ''/lists/1'' NilInterface None NilInterface
          (run_world [Inr \<lparr>StatusCode = 404, Body = Inr []\<rparr>])) =
     Returns (Some (JSONError ''unexpected end of JSON input''))"
proof -
  obtain l req where out:
    "outgoingRequest run_lib (New ''abc123-us6'') ''GET'' ''/lists/1'' NilInterface None = (l, Inr req)"
    by (simp add: run_defs Debug_New)
  show ?thesis
    using rawRequest_error_empty_body [OF out,
        where w = "run_world [Inr \<lparr>StatusCode = 404, Body = Inr []\<rparr>]"
          and resp = "\<lparr>StatusCode = 404, Body = Inr []\<rparr>" and t = "[]"
          and response = NilInterface]
    by (simp add: Timeout_New run_lib_def run_world_def)
qed

section \<open>The query string\<close>

lemma setParams_Cons:
  "setParams ((k, v) # m) q = setParams m (if v \<noteq> [] then Values_Set k v q else q)"
  by (simp add: setParams_def)

lemma setParams_Nil: "setParams [] q = q"
  by (simp add: setParams_def)

lemma map_of_setParams:
  "distinct (map fst m) \<Longrightarrow>
   map_of (setParams m q0) k =
     (case map_of m k of
        Some v \<Rightarrow> if v \<noteq> [] then Some [v] else map_of q0 k
      | None \<Rightarrow> map_of q0 k)"
proof (induction m arbitrary: q0)
  case Nil
  then show ?case by (simp add: setParams_Nil)
next
  case (Cons kv m)
  obtain k' v' where kv: "kv = (k', v')" by (cases kv)
  from Cons.prems kv have d: "distinct (map fst m)" and notin: "k' \<notin> fst ` set m"
    by simp_all
  from notin have none: "map_of m k' = None"
    by (simp add: map_of_eq_None_iff)
  show ?case
    using none
    by (simp add: kv setParams_Cons Cons.IH [OF d] Values_Set_def update_conv'
        split: option.splits)
qed

lemma distinct_setParams:
  "distinct (map fst q0) \<Longrightarrow> distinct (map fst (setParams m q0))"
proof (induction m arbitrary: q0)
  case Nil
  then show ?case by (simp add: setParams_Nil)
next
  case (Cons kv m)
  obtain k' v' where kv: "kv = (k', v')" by (cases kv)
  show ?case
    using Cons.prems
    by (simp add: kv setParams_Cons Values_Set_def Cons.IH distinct_update)
qed

lemma set_setParams_empty:
  assumes "distinct (map fst m)"
  shows "set (setParams m []) = {(k, [v]) | k v. (k, v) \<in> set m \<and> v \<noteq> []}"
proof -
  have d: "distinct (map fst (setParams m []))"
    by (rule distinct_setParams) simp
  have "(k, vs) \<in> set (setParams m []) \<longleftrightarrow> (\<exists>v. vs = [v] \<and> (k, v) \<in> set m \<and> v \<noteq> [])" for k vs
  proof -
    have "(k, vs) \<in> set (setParams m []) \<longleftrightarrow> map_of (setParams m []) k = Some vs"
      using d by simp
    also have "\<dots> \<longleftrightarrow> (\<exists>v. vs = [v] \<and> map_of m k = Some v \<and> v \<noteq> [])"
      by (auto simp: map_of_setParams [OF assms] split: option.splits)
    also have "\<dots> \<longleftrightarrow> (\<exists>v. vs = [v] \<and> (k, v) \<in> set m \<and> v \<noteq> [])"
      using assms by simp
    finally show ?thesis .
  qed
  then show ?thesis by auto
qed

lemma outgoingRequest_NonNil:
  assumes "marshalBody lib body = Inr bodyBytes"
    and "http_NewRequest lib method (endpoint api @ path) bodyBytes = Inr req0"
  shows "snd (outgoingRequest lib api method path (NonNil m) body) =
     Inr ((if Debug api then httputil_DumpRequestOut else id)
       (req0\<lparr>Header :=
                 AList.update ''Authorization'' (Basic (User api) (Key api))
                   (AList.update ''Content-Type'' (Str ''application/json'') (Header req0)),
               ReqURL := (ReqURL req0)\<lparr>RawQuery :=
                 Values_Encode (setParams m (url_ParseQuery lib (RawQuery (ReqURL req0))))\<rparr>\<rparr>))"
  using assms by (simp add: outgoingRequest_def Let_def)

lemma ReqURL_DumpRequestOut: "ReqURL (httputil_DumpRequestOut req) = ReqURL req"
  by (simp add: httputil_DumpRequestOut_def)

text \<open>
  C6, as the code has it. For a \<open>QueryParams\<close> value that is not nil, of a kind that can be
  nil, with the map \<open>m\<close>: the request goes out with the query string that encodes the
  parameters already in the request URL, \<open>q0\<close>, with every key of \<open>m\<close> whose value is not
  empty set to that value; a key with an empty value is not set. When the request URL has
  no query of its own, the parameters are exactly the pairs of \<open>m\<close> with a value that is
  not empty.
\<close>

theorem query_of_params:
  assumes "marshalBody lib body = Inr bodyBytes"
    and "http_NewRequest lib method (endpoint api @ path) bodyBytes = Inr req0"
    and "distinct (map fst m)"
    and "q0 = url_ParseQuery lib (RawQuery (ReqURL req0))"
  shows "(\<exists>l req. outgoingRequest lib api method path (NonNil m) body = (l, Inr req) \<and>
            RawQuery (ReqURL req) = Values_Encode (setParams m q0)) \<and>
         (\<forall>k. map_of (setParams m q0) k =
            (case map_of m k of
               Some v \<Rightarrow> if v \<noteq> [] then Some [v] else map_of q0 k
             | None \<Rightarrow> map_of q0 k)) \<and>
         (q0 = [] \<longrightarrow> set (setParams m q0) = {(k, [v]) | k v. (k, v) \<in> set m \<and> v \<noteq> []})"
proof (intro conjI allI impI)
  show "\<exists>l req. outgoingRequest lib api method path (NonNil m) body = (l, Inr req) \<and>
            RawQuery (ReqURL req) = Values_Encode (setParams m q0)"
    using outgoingRequest_NonNil [OF assms(1,2), of m] assms(4)
    by (cases "outgoingRequest lib api method path (NonNil m) body")
      (auto simp: ReqURL_DumpRequestOut)
next
  fix k
  show "map_of (setParams m q0) k =
            (case map_of m k of
               Some v \<Rightarrow> if v \<noteq> [] then Some [v] else map_of q0 k
             | None \<Rightarrow> map_of q0 k)"
    by (rule map_of_setParams [OF assms(3)])
next
  assume "q0 = []"
  then show "set (setParams m q0) = {(k, [v]) | k v. (k, v) \<in> set m \<and> v \<noteq> []}"
    by (simp add: set_setParams_empty [OF assms(3)])
qed

lemmas encode_defs = Values_Encode_def QueryEscape_def shouldEscapeQuery_def isAlnum_def
  setParams_def Values_Set_def

lemma New_us6_fields:
  "User (New ''abc123-us6'') = ''gochimp3''" "Key (New ''abc123-us6'') = ''abc123-us6''"
  "Debug (New ''abc123-us6'') = False"
  by (simp_all add: New_def)

theorem query_of_params_witness:
  "(\<exists>l req. outgoingRequest run_lib (New ''abc123-us6'') ''GET'' ''/lists''
               (NonNil [(''foo'', ''''), (''bar'', ''baz'')]) None = (l, Inr req) \<and>
             RawQuery (ReqURL req) = ''bar=baz'') \<and>
   set (setParams [(''foo'', ''''), (''bar'', ''baz'')] []) = {(''bar'', [''baz''])}"
proof -
  have e: "Values_Encode (setParams [(''foo'', ''''), (''bar'', ''baz'')] []) = ''bar=baz''"
    by (simp add: encode_defs)
  have s: "{(k, [v]) | k v. (k, v) \<in> set [(''foo'', ''''), (''bar'', ''baz'')] \<and> v \<noteq> []}
             = {(''bar'', [''baz''])}"
    by auto
  have mb: "marshalBody run_lib (None :: string option) = Inr None"
    by (simp add: marshalBody_def)
  have nr: "http_NewRequest run_lib ''GET'' (endpoint (New ''abc123-us6'') @ ''/lists'') None =
      Inr \<lparr>Method = ''GET'', ReqURL = run_Parse (endpoint (New ''abc123-us6'') @ ''/lists''),
           Header = [], ReqBody = None\<rparr>"
    by (simp add: run_lib_def)
  have d: "distinct (map fst [(''foo'', ''''), (''bar'', ''baz'')])"
    by simp
  have q0: "[] = url_ParseQuery run_lib (RawQuery (ReqURL
      \<lparr>Method = ''GET'', ReqURL = run_Parse (endpoint (New ''abc123-us6'') @ ''/lists''),
       Header = [], ReqBody = None\<rparr>))"
    by (simp add: run_lib_def New_endpoint_us6 run_Parse_def run_ParseQuery_def)
  note t = query_of_params [OF mb nr d q0]
  from t have "\<exists>l req. outgoingRequest run_lib (New ''abc123-us6'') ''GET'' ''/lists''
               (NonNil [(''foo'', ''''), (''bar'', ''baz'')]) None = (l, Inr req) \<and>
             RawQuery (ReqURL req) = Values_Encode (setParams [(''foo'', ''''), (''bar'', ''baz'')] [])"
    by (rule conjunct1)
  moreover from t have "set (setParams [(''foo'', ''''), (''bar'', ''baz'')] []) =
      {(k, [v]) | k v. (k, v) \<in> set [(''foo'', ''''), (''bar'', ''baz'')] \<and> v \<noteq> []}"
    by blast
  ultimately show ?thesis
    by (simp only: e s)
qed

text \<open>
  C6 as the spec states it fails when the path has a query of its own: for the path
  \<open>/lists?count=10\<close> the query string that goes out has \<open>count=10\<close>, which is no pair of
  the map.
\<close>

theorem query_of_params_counterexample:
  "snd (outgoingRequest run_lib (New ''abc123-us6'') ''GET'' ''/lists?count=10''
          (NonNil [(''foo'', ''''), (''bar'', ''baz'')]) None) =
     Inr \<lparr>Method = ''GET'',
          ReqURL = \<lparr>Scheme = ''https'', Host = ''us6.api.mailchimp.com'', Path = ''/3.0/lists'',
                    RawQuery = ''bar=baz&count=10''\<rparr>,
          Header = [(''Content-Type'', Str ''application/json''),
                    (''Authorization'', Basic ''gochimp3'' ''abc123-us6'')],
          ReqBody = None\<rparr> \<and>
   map_of [(''foo'', ''''), (''bar'', ''baz'')] ''count'' = None"
  by (simp add: run_defs encode_defs New_endpoint_us6 New_us6_fields)

section \<open>The retry loop\<close>

lemma RetryCtx_Suc:
  "RetryCtx ctx fn (Suc n) delay w =
     (let r = fst (fn w); w1 = snd (fn w)
      in case r of
           Returns (Some err) \<Rightarrow>
             if n = 0 then (r, w1)
             else if ctx_Done ctx (length (waits w1))
             then (Returns (Some Canceled), w1\<lparr>waits := waits w1 @ [Aborted]\<rparr>)
             else RetryCtx ctx fn n delay (w1\<lparr>waits := waits w1 @ [Slept delay]\<rparr>)
         | _ \<Rightarrow> (r, w1))"
  by (simp add: Let_def case_prod_beta split: result.splits option.splits prod.splits)

declare RetryCtx.simps(2) [simp del]

lemma Random_1_10: "Random src 1 10 = Inr (of_nat (src mod 9) + 1)"
  by (simp add: Random_def rand_Intn_def)

lemma Request_unfold:
  "Request lib api method path params body response src w =
     RetryCtx Background (rawRequest lib api method path params body response) 5
       ((of_nat (src mod 9) + 1) * Minute) w"
  by (simp add: Request_def Random_1_10)

lemma five: "(5 :: nat) = Suc (Suc (Suc (Suc (Suc 0))))"
  by simp

section \<open>The debug flag\<close>



lemma observable_parseAPIError:
  "observable (snd (parseAPIError lib data w)) = observable w"
  by (simp add: parseAPIError_def observable_def Let_def split: prod.splits option.splits)










text \<open>
  The flag does change the log: the same call logs three lines with the flag set, the
  request line and the two dumps, and none with it cleared.
\<close>

lemma Debug_changes_the_log:
  "length (logs (snd (rawRequest run_lib ((New ''abc123-us6'')\<lparr>Debug := True\<rparr>) ''GET'' ''/lists''
      NilInterface None NilInterface
      (run_world [Inr \<lparr>StatusCode = 200, Body = Inr ''true''\<rparr>])))) = 3 \<and>
   logs (snd (rawRequest run_lib ((New ''abc123-us6'')\<lparr>Debug := False\<rparr>) ''GET'' ''/lists''
      NilInterface None NilInterface
      (run_world [Inr \<lparr>StatusCode = 200, Body = Inr ''true''\<rparr>]))) = []"
  by (simp add: rawRequest_def run_defs skipUnmarshal_def clientTimeout_def New_def
      httputil_DumpRequestOut_def httputil_DumpResponse_def)

subsection \<open>The attempts of a \<open>Request\<close>\<close>

lemma waits_parseAPIError: "waits (snd (parseAPIError lib data w)) = waits w"
  using observable_parseAPIError [of lib data w] by (simp add: observable_def)

lemma rawRequest_waits:
  "waits (snd (rawRequest lib api method path params body response w)) = waits w"
  by (simp add: rawRequest_def Let_def case_prod_beta waits_parseAPIError
      split: prod.splits sum.splits bool.splits)

lemma failed_iff: "failed r \<longleftrightarrow> (\<exists>err. r = Returns (Some err))"
  by (cases r rule: failed.cases) simp_all

lemma RetryCtx_goes_on:
  assumes "failed (fst (fn w))" and "n \<noteq> 0"
  shows "RetryCtx Background fn (Suc n) d w =
           RetryCtx Background fn n d (snd (fn w)\<lparr>waits := waits (snd (fn w)) @ [Slept d]\<rparr>)"
  using assms by (auto simp: RetryCtx_Suc Let_def failed_iff)

lemma RetryCtx_ends:
  assumes "\<not> failed (fst (fn w)) \<or> n = 0"
  shows "RetryCtx Background fn (Suc n) d w = fn w"
proof (cases "fst (fn w)" rule: failed.cases)
  case (1 err)
  with assms have "n = 0" by simp
  with 1 show ?thesis
    by (simp add: RetryCtx_Suc Let_def prod_eq_iff)
next
  case 2
  then show ?thesis
    by (simp add: RetryCtx_Suc Let_def prod_eq_iff)
next
  case (3 p)
  then show ?thesis
    by (simp add: RetryCtx_Suc Let_def prod_eq_iff)
qed

lemma RetryCtx_attempts:
  "0 < n \<Longrightarrow>
   \<exists>k<n. (\<forall>i<k. failed (fst (fn (before_attempt fn d i w)))) \<and>
     (k = n - 1 \<or> \<not> failed (fst (fn (before_attempt fn d k w)))) \<and>
     RetryCtx Background fn n d w = fn (before_attempt fn d k w)"
proof (induction n arbitrary: w)
  case 0
  then show ?case by simp
next
  case (Suc n)
  show ?case
  proof (cases "failed (fst (fn w)) \<and> n \<noteq> 0")
    case False
    then have "RetryCtx Background fn (Suc n) d w = fn w"
      by (intro RetryCtx_ends) blast
    with False show ?thesis
      by (intro exI [of _ 0]) auto
  next
    case True
    let ?w1 = "snd (fn w)\<lparr>waits := waits (snd (fn w)) @ [Slept d]\<rparr>"
    from True have f: "failed (fst (fn w))" and n: "0 < n"
      by simp_all
    from Suc.IH [OF n, of ?w1] obtain k where k: "k < n"
      and before: "\<forall>i<k. failed (fst (fn (before_attempt fn d i ?w1)))"
      and last: "k = n - 1 \<or> \<not> failed (fst (fn (before_attempt fn d k ?w1)))"
      and run: "RetryCtx Background fn n d ?w1 = fn (before_attempt fn d k ?w1)"
      by blast
    have "\<forall>i<Suc k. failed (fst (fn (before_attempt fn d i w)))"
    proof (intro allI impI)
      fix i
      assume "i < Suc k"
      then show "failed (fst (fn (before_attempt fn d i w)))"
        using f before by (cases i) simp_all
    qed
    moreover have "Suc k = Suc n - 1 \<or> \<not> failed (fst (fn (before_attempt fn d (Suc k) w)))"
      using last n by auto
    moreover have "RetryCtx Background fn (Suc n) d w = fn (before_attempt fn d (Suc k) w)"
      using f n run by (simp add: RetryCtx_goes_on)
    moreover have "Suc k < Suc n"
      using k by simp
    ultimately show ?thesis
      by blast
  qed
qed

lemma before_attempt_next:
  "before_attempt fn d (Suc k) w =
     snd (fn (before_attempt fn d k w))
       \<lparr>waits := waits (snd (fn (before_attempt fn d k w))) @ [Slept d]\<rparr>"
proof (induction k arbitrary: w)
  case 0
  show ?case by simp
next
  case (Suc k)
  have "before_attempt fn d (Suc (Suc k)) w =
      before_attempt fn d (Suc k) (snd (fn w)\<lparr>waits := waits (snd (fn w)) @ [Slept d]\<rparr>)"
    by simp
  also have "\<dots> =
      snd (fn (before_attempt fn d k (snd (fn w)\<lparr>waits := waits (snd (fn w)) @ [Slept d]\<rparr>)))
        \<lparr>waits := waits (snd (fn (before_attempt fn d k
            (snd (fn w)\<lparr>waits := waits (snd (fn w)) @ [Slept d]\<rparr>)))) @ [Slept d]\<rparr>"
    by (rule Suc.IH)
  finally show ?case
    by simp
qed

lemma waits_before_attempt:
  assumes "\<And>w. waits (snd (fn w)) = waits w"
  shows "waits (before_attempt fn d k w) = waits w @ replicate k (Slept d)"
proof (induction k arbitrary: w)
  case 0
  show ?case by simp
next
  case (Suc k)
  show ?case
    by (simp add: Suc.IH assms replicate_app_Cons_same)
qed

lemma Request_attempts:
  "\<exists>k<5.
     (\<forall>i<k. failed (fst (rawRequest lib api method path params body response
        (before_attempt (rawRequest lib api method path params body response)
           ((of_nat (src mod 9) + 1) * Minute) i w)))) \<and>
     (k = 4 \<or> \<not> failed (fst (rawRequest lib api method path params body response
        (before_attempt (rawRequest lib api method path params body response)
           ((of_nat (src mod 9) + 1) * Minute) k w)))) \<and>
     Request lib api method path params body response src w =
       rawRequest lib api method path params body response
         (before_attempt (rawRequest lib api method path params body response)
            ((of_nat (src mod 9) + 1) * Minute) k w) \<and>
     waits (snd (Request lib api method path params body response src w)) =
       waits w @ replicate k (Slept ((of_nat (src mod 9) + 1) * Minute))"
proof -
  let ?f = "rawRequest lib api method path params body response"
  let ?d = "(of_nat (src mod 9) + 1) * Minute :: Duration"
  from RetryCtx_attempts [of 5 ?f ?d w] obtain k where k: "k < 5"
    and before: "\<forall>i<k. failed (fst (?f (before_attempt ?f ?d i w)))"
    and last: "k = 4 \<or> \<not> failed (fst (?f (before_attempt ?f ?d k w)))"
    and run: "RetryCtx Background ?f 5 ?d w = ?f (before_attempt ?f ?d k w)"
    by auto
  have "waits (snd (Request lib api method path params body response src w)) =
      waits w @ replicate k (Slept ?d)"
    by (simp add: Request_unfold run rawRequest_waits waits_before_attempt)
  with k before last run show ?thesis
    unfolding Request_unfold by blast
qed

text \<open>
  C3, as the code has it. \<open>Request\<close> runs the loop under \<open>context.Background()\<close>, which
  is never done, and takes no context from its caller. It makes an attempt, and after an
  attempt that has failed it sleeps through the whole delay and makes the next one, up to
  5 attempts: there is a number \<open>k\<close> below 5 of attempts that have failed, each followed by
  a wait slept to its end; the attempt after them is the last one, either because it has
  not failed or because it is the fifth; and what \<open>Request\<close> returns is what this last
  attempt returns. The loop adds no error of its own.
\<close>

theorem Request_is_never_cancelled:
  "\<exists>r. Random src 1 10 = Inr r \<and>
     (\<exists>k<5.
        (\<forall>i<k. failed (fst (rawRequest lib api method path params body response
           (before_attempt (rawRequest lib api method path params body response)
              (r * Minute) i w)))) \<and>
        (k = 4 \<or> \<not> failed (fst (rawRequest lib api method path params body response
           (before_attempt (rawRequest lib api method path params body response)
              (r * Minute) k w)))) \<and>
        Request lib api method path params body response src w =
          rawRequest lib api method path params body response
            (before_attempt (rawRequest lib api method path params body response)
               (r * Minute) k w) \<and>
        waits (snd (Request lib api method path params body response src w)) =
          waits w @ replicate k (Slept (r * Minute)))"
proof (rule exI [of _ "of_nat (src mod 9) + 1"], rule conjI)
  show "Random src 1 10 = Inr (of_nat (src mod 9) + 1)"
    by (rule Random_1_10)
qed (rule Request_attempts)

lemma last_attempt:
  fixes k n :: nat
  assumes "\<forall>i<k. P i" and "k = 4 \<or> \<not> P k" and "\<forall>i<n. P i" and "\<not> P n" and "n < 5"
  shows "k = n"
proof (rule ccontr)
  assume "k \<noteq> n"
  then consider "k < n" | "n < k" by arith
  then show False
  proof cases
    case 1
    with assms(3) have "P k" by simp
    with assms(2) have "k = 4" by simp
    with 1 assms(5) show False by simp
  next
    case 2
    with assms(1) have "P n" by simp
    with assms(4) show False by simp
  qed
qed

lemmas run_eval = rawRequest_def run_defs skipUnmarshal_def clientTimeout_def New_def
  json_Unmarshal_def

theorem Request_is_never_cancelled_witness:
  "fst (Request run_lib (New ''abc123-us6'') ''GET'' ''/lists'' NilInterface None (NonNil ()) 0
          (run_world [Inl ''e1'', Inl ''e2'',
                      Inr \<lparr>StatusCode = 200, Body = Inr ''true''\<rparr>])) = Returns None \<and>
   waits (snd (Request run_lib (New ''abc123-us6'') ''GET'' ''/lists'' NilInterface None (NonNil ()) 0
          (run_world [Inl ''e1'', Inl ''e2'',
                      Inr \<lparr>StatusCode = 200, Body = Inr ''true''\<rparr>]))) =
     [Slept Minute, Slept Minute]"
proof -
  let ?f = "rawRequest run_lib (New ''abc123-us6'') ''GET'' ''/lists'' NilInterface None (NonNil ())"
  let ?w = "run_world [Inl ''e1'', Inl ''e2'', Inr \<lparr>StatusCode = 200, Body = Inr ''true''\<rparr>]"
  from Request_is_never_cancelled [of 0 run_lib "New ''abc123-us6''" "''GET''" "''/lists''"
      NilInterface None "NonNil ()" ?w]
  obtain r k where r: "Random 0 1 10 = Inr r"
    and before: "\<forall>i<k. failed (fst (?f (before_attempt ?f (r * Minute) i ?w)))"
    and last: "k = 4 \<or> \<not> failed (fst (?f (before_attempt ?f (r * Minute) k ?w)))"
    and run: "Request run_lib (New ''abc123-us6'') ''GET'' ''/lists'' NilInterface None (NonNil ()) 0 ?w =
        ?f (before_attempt ?f (r * Minute) k ?w)"
    and slept: "waits (snd (Request run_lib (New ''abc123-us6'') ''GET'' ''/lists'' NilInterface None
        (NonNil ()) 0 ?w)) = waits ?w @ replicate k (Slept (r * Minute))"
    by blast
  from r have r1: "r = 1"
    by (simp add: Random_1_10)
  have two: "\<forall>i<2. failed (fst (?f (before_attempt ?f (r * Minute) i ?w)))"
    by (simp add: eval_nat_numeral All_less_Suc run_eval)
  have third: "\<not> failed (fst (?f (before_attempt ?f (r * Minute) 2 ?w)))"
    by (simp add: eval_nat_numeral run_eval)
  have k: "k = 2"
    using before last two third by (rule last_attempt) simp
  have "fst (?f (before_attempt ?f (r * Minute) 2 ?w)) = Returns None"
    by (simp add: eval_nat_numeral run_eval)
  with run slept show ?thesis
    by (simp add: k r1 run_world_def eval_nat_numeral)
qed

lemma rawRequest_transport_error:
  assumes "outgoingRequest lib api method path params body = (l, Inr req)"
    and "http_Do lib = scripted_Do"
    and "transport w = Inl m # rest"
  shows "rawRequest lib api method path params body response w =
           (Returns (Some (HTTPError m)), w\<lparr>transport := rest, logs := logs w @ l\<rparr>)"
  using assms by (simp add: rawRequest_def)

lemma RetryCtx_transport_errors:
  assumes out: "outgoingRequest lib api method path params body = (l, Inr req)"
    and scripted: "http_Do lib = scripted_Do"
  shows "length msgs < n \<Longrightarrow> transport w = map Inl msgs @ rest \<Longrightarrow>
     \<exists>w'. RetryCtx Background (rawRequest lib api method path params body response) n d w =
            RetryCtx Background (rawRequest lib api method path params body response)
              (n - length msgs) d w' \<and>
          transport w' = rest \<and> pointee w' = pointee w \<and>
          waits w' = waits w @ replicate (length msgs) (Slept d)"
proof (induction msgs arbitrary: w n)
  case Nil
  then show ?case by (intro exI [of _ w]) simp
next
  case (Cons m msgs)
  from Cons.prems obtain n' where n: "n = Suc n'" and n': "length msgs < n'"
    by (cases n) auto
  let ?f = "rawRequest lib api method path params body response"
  let ?w1 = "w\<lparr>transport := map Inl msgs @ rest, logs := logs w @ l\<rparr>"
  let ?w2 = "?w1\<lparr>waits := waits ?w1 @ [Slept d]\<rparr>"
  have f: "?f w = (Returns (Some (HTTPError m)), ?w1)"
    using Cons.prems(2) by (simp add: rawRequest_transport_error [OF out scripted])
  have step: "RetryCtx Background ?f n d w = RetryCtx Background ?f n' d ?w2"
    using n' by (simp add: n RetryCtx_Suc f Let_def)
  from Cons.IH [of n' ?w2, OF n'] obtain w' where
    "RetryCtx Background ?f n' d ?w2 = RetryCtx Background ?f (n' - length msgs) d w'"
    "transport w' = rest" "pointee w' = pointee w"
    "waits w' = (waits w @ [Slept d]) @ replicate (length msgs) (Slept d)"
    by auto
  then show ?case
    using step n by (intro exI [of _ w']) (simp add: replicate_app_Cons_same)
qed

lemma rawRequest_consumes:
  assumes "http_Do lib = scripted_Do"
  shows "length (transport w) \<le>
           length (transport (snd (rawRequest lib api method path params body response w))) + 1"
proof -
  have s: "length t \<le> length (snd (scripted_Do tm rq t)) + 1" for tm rq t
    by (cases t) simp_all
  have p: "transport (snd (parseAPIError lib data w0)) = transport w0" for data w0
    using observable_parseAPIError [of lib data w0] by (simp add: observable_def)
  obtain l r where o: "outgoingRequest lib api method path params body = (l, r)"
    by (cases "outgoingRequest lib api method path params body")
  show ?thesis
  proof (cases r)
    case (Inl res)
    then show ?thesis using o by (simp add: rawRequest_def)
  next
    case (Inr req)
    show ?thesis
      using o Inr assms s [of "transport w" "clientTimeout api" req]
      by (simp add: rawRequest_def Let_def case_prod_beta p
          split: sum.splits bool.splits)
  qed
qed

lemma RetryCtx_consumes:
  assumes "\<And>w. length (transport w) \<le> length (transport (snd (f w))) + 1"
  shows "length (transport w) \<le> length (transport (snd (RetryCtx ctx f n d w))) + n"
proof (induction n arbitrary: w)
  case 0
  then show ?case by simp
next
  case (Suc n)
  have a: "length (transport w) \<le> length (transport (snd (f w))) + 1"
    by (rule assms)
  have b: "length (transport (snd (f w))) \<le>
      length (transport (snd (RetryCtx ctx f n d (snd (f w)\<lparr>waits := waits (snd (f w)) @ [Slept d]\<rparr>)))) + n"
    using Suc.IH [of "snd (f w)\<lparr>waits := waits (snd (f w)) @ [Slept d]\<rparr>"] by simp
  show ?case
    using a b by (simp add: RetryCtx_Suc Let_def split: result.splits option.splits)
qed

text \<open>
  C2. With a scripted transport and a request that can be built, \<open>Request\<close> makes at most
  5 round trips. When fewer than 5 round trips fail and the next one brings a 2xx response
  whose body decodes, \<open>Request\<close> returns nil, the destination holds the decoded value and
  the transport has been asked just that often. When 5 round trips fail, \<open>Request\<close> returns
  the error of the fifth, as it is, and asks the transport no more.
\<close>

theorem Request_retries:
  assumes "http_Do lib = scripted_Do"
    and "outgoingRequest lib api method path params body = (l, Inr req)"
  shows "length (transport w) \<le>
           length (transport (snd (Request lib api method path params body response src w))) + 5 \<and>
         (length msgs < 5 \<and> transport w = map Inl msgs @ Inr resp # rest \<and>
          200 \<le> StatusCode resp \<and> StatusCode resp < 300 \<and> Body resp = Inr data \<and>
          data \<noteq> [] \<and> response = NonNil u \<and> json_decode lib data (pointee w) = (None, v) \<longrightarrow>
            fst (Request lib api method path params body response src w) = Returns None \<and>
            pointee (snd (Request lib api method path params body response src w)) = v \<and>
            transport (snd (Request lib api method path params body response src w)) = rest) \<and>
         (length msgs = 5 \<and> transport w = map Inl msgs @ rest \<longrightarrow>
            fst (Request lib api method path params body response src w) =
              Returns (Some (HTTPError (last msgs))) \<and>
            transport (snd (Request lib api method path params body response src w)) = rest)"
proof (intro conjI impI)
  let ?f = "rawRequest lib api method path params body response"
  let ?d = "(of_nat (src mod 9) + 1) * Minute :: Duration"
  show "length (transport w) \<le>
      length (transport (snd (Request lib api method path params body response src w))) + 5"
    unfolding Request_unfold
    by (rule RetryCtx_consumes) (rule rawRequest_consumes [OF assms(1)])
  {
    assume a: "length msgs < 5 \<and> transport w = map Inl msgs @ Inr resp # rest \<and>
          200 \<le> StatusCode resp \<and> StatusCode resp < 300 \<and> Body resp = Inr data \<and>
          data \<noteq> [] \<and> response = NonNil u \<and> json_decode lib data (pointee w) = (None, v)"
    then have len: "length msgs < 5" and tr: "transport w = map Inl msgs @ (Inr resp # rest)"
      and lo: "200 \<le> StatusCode resp" and hi: "StatusCode resp < 300"
      and rd: "Body resp = Inr data" and ne: "data \<noteq> []" and rs: "response = NonNil u"
      and dec: "json_decode lib data (pointee w) = (None, v)"
      by simp_all
    from RetryCtx_transport_errors [OF assms(2,1) len tr, of response ?d]
    obtain w' where run: "RetryCtx Background ?f 5 ?d w = RetryCtx Background ?f (5 - length msgs) ?d w'"
      and tw: "transport w' = Inr resp # rest" and pw: "pointee w' = pointee w"
      by blast
    from len obtain k where k: "5 - length msgs = Suc k"
      by (cases "5 - length msgs") auto
    have do: "http_Do lib (clientTimeout api) req (transport w') = (Inr resp, rest)"
      by (simp add: assms(1) tw)
    have last: "?f w' = (Returns None,
        w'\<lparr>transport := rest,
            logs := logs w' @ l @ (if Debug api then [DumpResponse resp] else []),
            pointee := v\<rparr>)"
      using ne dec
      by (simp add: rawRequest_2xx [OF assms(2) do rd lo hi] rs skipUnmarshal_simps
          json_Unmarshal_def pw Let_def)
    have res: "RetryCtx Background ?f 5 ?d w = (Returns None,
        w'\<lparr>transport := rest,
            logs := logs w' @ l @ (if Debug api then [DumpResponse resp] else []),
            pointee := v\<rparr>)"
      by (simp add: run k RetryCtx_Suc last Let_def)
    show "fst (Request lib api method path params body response src w) = Returns None"
      by (simp add: Request_unfold res)
    show "pointee (snd (Request lib api method path params body response src w)) = v"
      by (simp add: Request_unfold res)
    show "transport (snd (Request lib api method path params body response src w)) = rest"
      by (simp add: Request_unfold res)
  }
  {
    assume a: "length msgs = 5 \<and> transport w = map Inl msgs @ rest"
    then have len: "length msgs = 5" and tr: "transport w = map Inl msgs @ rest"
      by simp_all
    from len obtain ms m5 where ms: "msgs = ms @ [m5]"
      by (cases msgs rule: rev_cases) auto
    with len have len4: "length ms < 5" and five: "5 - length ms = Suc 0"
      by simp_all
    have tr': "transport w = map Inl ms @ (Inl m5 # rest)"
      using tr ms by simp
    from RetryCtx_transport_errors [OF assms(2,1) len4 tr', of response ?d]
    obtain w' where run: "RetryCtx Background ?f 5 ?d w = RetryCtx Background ?f (5 - length ms) ?d w'"
      and tw: "transport w' = Inl m5 # rest"
      by blast
    have res: "RetryCtx Background ?f 5 ?d w =
        (Returns (Some (HTTPError m5)), w'\<lparr>transport := rest, logs := logs w' @ l\<rparr>)"
      by (simp add: run five RetryCtx_Suc Let_def
          rawRequest_transport_error [OF assms(2,1) tw])
    show "fst (Request lib api method path params body response src w) =
              Returns (Some (HTTPError (last msgs)))"
      by (simp add: Request_unfold res ms)
    show "transport (snd (Request lib api method path params body response src w)) = rest"
      by (simp add: Request_unfold res)
  }
qed

lemma minutes_fit:
  assumes "m \<in> {1..9}"
  shows "sint (of_nat m * Minute :: Duration) = int m * 60000000000"
proof -
  from assms have "m = 1 \<or> m = 2 \<or> m = 3 \<or> m = 4 \<or> m = 5 \<or> m = 6 \<or> m = 7 \<or> m = 8 \<or> m = 9"
    by (simp only: atLeastAtMost_iff) arith
  then show ?thesis
    by (elim disjE) (simp_all add: Minute_def)
qed

lemma Random_draw: "m \<in> {1..9} \<Longrightarrow> Random (m - 1) 1 10 = Inr (of_nat m)"
proof -
  assume m: "m \<in> {1..9}"
  then have "(m - 1) mod 9 = m - 1" by (intro mod_less) auto
  moreover from m have "(of_nat (m - 1) + 1 :: 64 word) = of_nat m"
    by (cases m) simp_all
  ultimately show ?thesis by (simp add: Random_1_10)
qed

lemma Random_inj: "inj_on (\<lambda>r. Random r 1 10) {0..<9}"
proof (rule inj_onI)
  fix r r' :: nat
  assume r: "r \<in> {0..<9}" and r': "r' \<in> {0..<9}" and eq: "Random r 1 10 = Random r' 1 10"
  from r r' have "r mod 9 = r" "r' mod 9 = r'" by simp_all
  with eq have "(of_nat r :: 64 word) = of_nat r'"
    by (simp add: Random_1_10)
  then have "r mod 2 ^ 64 = r' mod 2 ^ 64"
    by (simp add: word_of_nat_eq_iff take_bit_eq_mod)
  moreover from r r' have "r < 2 ^ 64" "r' < 2 ^ 64" by simp_all
  ultimately show "r = r'"
    by simp
qed

text \<open>
  C7. The delay of a \<open>Request\<close> is \<open>m\<close> minutes for a whole number \<open>m\<close> from 1 to 9,
  without overflow of the 64 bits of a \<open>Duration\<close>. The loop makes its attempts, fewer
  than 5 of which fail before the last one, and between an attempt that has failed and the
  next one there is one wait, of that delay: the next attempt starts in the world the
  failed one has left, with this wait added, and the waits of the whole call are as many
  waits of the delay as attempts have failed before the last. Each \<open>m\<close> from 1 to 9 is
  drawn, and the 9 results of \<open>rand.Intn(9)\<close> give 9 different delays: a uniform
  \<open>rand.Intn\<close> makes the delay uniform on 1 to 9 minutes.
\<close>

theorem backoff_range:
  "(\<exists>m\<in>{1..9}. Random src 1 10 = Inr (of_nat m) \<and>
      sint (of_nat m * Minute :: Duration) = int m * 60000000000 \<and>
      (\<exists>k<5.
         (\<forall>i<k. failed (fst (rawRequest lib api method path params body response
            (before_attempt (rawRequest lib api method path params body response)
               (of_nat m * Minute) i w))) \<and>
            before_attempt (rawRequest lib api method path params body response)
               (of_nat m * Minute) (Suc i) w =
              snd (rawRequest lib api method path params body response
                     (before_attempt (rawRequest lib api method path params body response)
                        (of_nat m * Minute) i w))
                \<lparr>waits := waits (before_attempt (rawRequest lib api method path params body response)
                     (of_nat m * Minute) i w) @ [Slept (of_nat m * Minute)]\<rparr>) \<and>
         (k = 4 \<or> \<not> failed (fst (rawRequest lib api method path params body response
            (before_attempt (rawRequest lib api method path params body response)
               (of_nat m * Minute) k w)))) \<and>
         Request lib api method path params body response src w =
           rawRequest lib api method path params body response
             (before_attempt (rawRequest lib api method path params body response)
                (of_nat m * Minute) k w) \<and>
         waits (snd (Request lib api method path params body response src w)) =
           waits w @ replicate k (Slept (of_nat m * Minute)))) \<and>
   (\<forall>m\<in>{1..9}. Random (m - 1) 1 10 = Inr (of_nat m)) \<and>
   inj_on (\<lambda>r. Random r 1 10) {0..<9}"
proof (intro conjI ballI)
  let ?m = "src mod 9 + 1"
  let ?f = "rawRequest lib api method path params body response"
  have m: "?m \<in> {1..9}" by simp
  have r: "Random src 1 10 = Inr (of_nat ?m)"
    by (simp add: Random_1_10)
  have d: "(of_nat (src mod 9) + 1) * Minute = (of_nat ?m * Minute :: Duration)"
    by (simp add: add.commute)
  have next_world: "before_attempt ?f (of_nat ?m * Minute) (Suc i) w =
      snd (?f (before_attempt ?f (of_nat ?m * Minute) i w))
        \<lparr>waits := waits (before_attempt ?f (of_nat ?m * Minute) i w) @ [Slept (of_nat ?m * Minute)]\<rparr>"
    for i
    by (simp only: before_attempt_next rawRequest_waits)
  from Request_attempts [of lib api _ path params body response src w, unfolded d]
  obtain k where "k < 5"
    and "\<forall>i<k. failed (fst (?f (before_attempt ?f (of_nat ?m * Minute) i w)))"
    and "k = 4 \<or> \<not> failed (fst (?f (before_attempt ?f (of_nat ?m * Minute) k w)))"
    and "Request lib api method path params body response src w =
        ?f (before_attempt ?f (of_nat ?m * Minute) k w)"
    and "waits (snd (Request lib api method path params body response src w)) =
        waits w @ replicate k (Slept (of_nat ?m * Minute))"
    by blast
  with next_world have "\<exists>k<5.
         (\<forall>i<k. failed (fst (?f (before_attempt ?f (of_nat ?m * Minute) i w))) \<and>
            before_attempt ?f (of_nat ?m * Minute) (Suc i) w =
              snd (?f (before_attempt ?f (of_nat ?m * Minute) i w))
                \<lparr>waits := waits (before_attempt ?f (of_nat ?m * Minute) i w) @
                   [Slept (of_nat ?m * Minute)]\<rparr>) \<and>
         (k = 4 \<or> \<not> failed (fst (?f (before_attempt ?f (of_nat ?m * Minute) k w)))) \<and>
         Request lib api method path params body response src w =
           ?f (before_attempt ?f (of_nat ?m * Minute) k w) \<and>
         waits (snd (Request lib api method path params body response src w)) =
           waits w @ replicate k (Slept (of_nat ?m * Minute))"
    by blast
  with m r minutes_fit [OF m]
  show "\<exists>m\<in>{1..9}. Random src 1 10 = Inr (of_nat m) \<and>
      sint (of_nat m * Minute :: Duration) = int m * 60000000000 \<and>
      (\<exists>k<5.
         (\<forall>i<k. failed (fst (?f (before_attempt ?f (of_nat m * Minute) i w))) \<and>
            before_attempt ?f (of_nat m * Minute) (Suc i) w =
              snd (?f (before_attempt ?f (of_nat m * Minute) i w))
                \<lparr>waits := waits (before_attempt ?f (of_nat m * Minute) i w) @
                   [Slept (of_nat m * Minute)]\<rparr>) \<and>
         (k = 4 \<or> \<not> failed (fst (?f (before_attempt ?f (of_nat m * Minute) k w)))) \<and>
         Request lib api method path params body response src w =
           ?f (before_attempt ?f (of_nat m * Minute) k w) \<and>
         waits (snd (Request lib api method path params body response src w)) =
           waits w @ replicate k (Slept (of_nat m * Minute)))"
    by blast
next
  fix m :: nat
  assume "m \<in> {1..9}"
  then show "Random (m - 1) 1 10 = Inr (of_nat m)" by (rule Random_draw)
next
  show "inj_on (\<lambda>r. Random r 1 10) {0..<9}" by (rule Random_inj)
qed

lemma scripted_run_lib: "http_Do run_lib = scripted_Do"
  by (simp add: run_lib_def)

theorem backoff_range_witness:
  "Random 4 1 10 = Inr 5 \<and> sint (5 * Minute :: Duration) = 300000000000 \<and>
   Random 8 1 10 = Inr 9 \<and> Random 0 1 10 = Inr 1 \<and>
   waits (snd (Request run_lib (New ''abc123-us6'') ''GET'' ''/lists'' NilInterface None
        NilInterface 4 (run_world [Inl ''timeout'', Inr \<lparr>StatusCode = 200, Body = Inr []\<rparr>]))) =
     [Slept (5 * Minute)] \<and>
   waits (before_attempt
        (rawRequest run_lib (New ''abc123-us6'') ''GET'' ''/lists'' NilInterface None NilInterface)
        (5 * Minute) 1
        (run_world [Inl ''timeout'', Inr \<lparr>StatusCode = 200, Body = Inr []\<rparr>])) =
     [Slept (5 * Minute)]"
proof -
  let ?f = "rawRequest run_lib (New ''abc123-us6'') ''GET'' ''/lists'' NilInterface None NilInterface"
  let ?w = "run_world [Inl ''timeout'', Inr \<lparr>StatusCode = 200, Body = Inr []\<rparr>]"
  have r: "Random 4 1 10 = Inr 5"
    by (simp add: Random_1_10)
  from backoff_range [of 4 run_lib "New ''abc123-us6''" "''GET''" "''/lists''" NilInterface None
      NilInterface ?w]
  obtain m k where m: "Random 4 1 10 = Inr (of_nat m)" "m \<in> {1..9}"
    and s: "sint (of_nat m * Minute :: Duration) = int m * 60000000000"
    and before: "\<forall>i<k. failed (fst (?f (before_attempt ?f (of_nat m * Minute) i ?w))) \<and>
        before_attempt ?f (of_nat m * Minute) (Suc i) ?w =
          snd (?f (before_attempt ?f (of_nat m * Minute) i ?w))
            \<lparr>waits := waits (before_attempt ?f (of_nat m * Minute) i ?w) @
               [Slept (of_nat m * Minute)]\<rparr>"
    and last: "k = 4 \<or> \<not> failed (fst (?f (before_attempt ?f (of_nat m * Minute) k ?w)))"
    and slept: "waits (snd (Request run_lib (New ''abc123-us6'') ''GET'' ''/lists'' NilInterface None
        NilInterface 4 ?w)) = waits ?w @ replicate k (Slept (of_nat m * Minute))"
    and all: "\<forall>m\<in>{1..9}. Random (m - 1) 1 10 = Inr (of_nat m)"
    by blast
  from m r have m5: "(of_nat m :: 64 word) = 5" by simp
  from before have failures: "\<forall>i<k. failed (fst (?f (before_attempt ?f (5 * Minute) i ?w)))"
    by (simp add: m5)
  from last have ending: "k = 4 \<or> \<not> failed (fst (?f (before_attempt ?f (5 * Minute) k ?w)))"
    by (simp add: m5)
  have one: "\<forall>i<1. failed (fst (?f (before_attempt ?f (5 * Minute) i ?w)))"
    by (simp add: run_eval)
  have second: "\<not> failed (fst (?f (before_attempt ?f (5 * Minute) 1 ?w)))"
    by (simp add: run_eval)
  have k: "k = 1"
    using failures ending one second by (rule last_attempt) simp
  from before k have "before_attempt ?f (of_nat m * Minute) (Suc 0) ?w =
          snd (?f (before_attempt ?f (of_nat m * Minute) 0 ?w))
            \<lparr>waits := waits (before_attempt ?f (of_nat m * Minute) 0 ?w) @
               [Slept (of_nat m * Minute)]\<rparr>"
    by simp
  then have between: "waits (before_attempt ?f (5 * Minute) 1 ?w) = [Slept (5 * Minute)]"
    by (simp only: m5 One_nat_def) (simp add: run_world_def)
  from s m5 have "sint (5 * Minute :: Duration) = int m * 60000000000"
    by simp
  moreover have "sint (5 * Minute :: Duration) = 300000000000"
    by (simp add: Minute_def)
  moreover from all [THEN bspec, of 9] all [THEN bspec, of 1]
  have "Random 8 1 10 = Inr 9" "Random 0 1 10 = Inr 1"
    by simp_all
  moreover from slept have "waits (snd (Request run_lib (New ''abc123-us6'') ''GET'' ''/lists''
      NilInterface None NilInterface 4 ?w)) = [Slept (5 * Minute)]"
    by (simp add: k m5 run_world_def)
  ultimately show ?thesis
    using r between by simp
qed

theorem Request_retries_witness:
  "fst (Request run_lib (New ''abc123-us6'') ''GET'' ''/lists'' NilInterface None (NonNil ()) 3
          (run_world [Inl ''timeout'', Inl ''reset'',
                      Inr \<lparr>StatusCode = 200, Body = Inr ''true''\<rparr>])) = Returns None \<and>
   pointee (snd (Request run_lib (New ''abc123-us6'') ''GET'' ''/lists'' NilInterface None (NonNil ()) 3
          (run_world [Inl ''timeout'', Inl ''reset'',
                      Inr \<lparr>StatusCode = 200, Body = Inr ''true''\<rparr>]))) = True \<and>
   fst (Request run_lib (New ''abc123-us6'') ''GET'' ''/lists'' NilInterface None (NonNil ()) 3
          (run_world [Inl ''e1'', Inl ''e2'', Inl ''e3'', Inl ''e4'', Inl ''e5'',
                      Inr \<lparr>StatusCode = 200, Body = Inr ''true''\<rparr>])) =
     Returns (Some (HTTPError ''e5'')) \<and>
   transport (snd (Request run_lib (New ''abc123-us6'') ''GET'' ''/lists'' NilInterface None (NonNil ()) 3
          (run_world [Inl ''e1'', Inl ''e2'', Inl ''e3'', Inl ''e4'', Inl ''e5'',
                      Inr \<lparr>StatusCode = 200, Body = Inr ''true''\<rparr>]))) =
     [Inr \<lparr>StatusCode = 200, Body = Inr ''true''\<rparr>]"
proof -
  obtain l req where out:
    "outgoingRequest run_lib (New ''abc123-us6'') ''GET'' ''/lists'' NilInterface None = (l, Inr req)"
    by (simp add: run_defs Debug_New)
  note t = Request_retries [OF scripted_run_lib out]
  have ok: "length [''timeout'', ''reset''] < 5 \<and>
      transport (run_world [Inl ''timeout'', Inl ''reset'',
                            Inr \<lparr>StatusCode = 200, Body = Inr ''true''\<rparr>]) =
        map Inl [''timeout'', ''reset''] @ Inr \<lparr>StatusCode = 200, Body = Inr ''true''\<rparr> # [] \<and>
      200 \<le> StatusCode \<lparr>StatusCode = 200, Body = Inr ''true''\<rparr> \<and>
      StatusCode \<lparr>StatusCode = 200, Body = Inr ''true''\<rparr> < 300 \<and>
      Body \<lparr>StatusCode = 200, Body = Inr ''true''\<rparr> = Inr ''true'' \<and> ''true'' \<noteq> [] \<and>
      NonNil () = NonNil () \<and>
      json_decode run_lib ''true''
        (pointee (run_world [Inl ''timeout'', Inl ''reset'',
                             Inr \<lparr>StatusCode = 200, Body = Inr ''true''\<rparr>])) = (None, True)"
    by (simp add: run_world_def run_lib_def run_decode_def)
  have down: "length [''e1'', ''e2'', ''e3'', ''e4'', ''e5''] = 5 \<and>
      transport (run_world [Inl ''e1'', Inl ''e2'', Inl ''e3'', Inl ''e4'', Inl ''e5'',
                            Inr \<lparr>StatusCode = 200, Body = Inr ''true''\<rparr>]) =
        map Inl [''e1'', ''e2'', ''e3'', ''e4'', ''e5''] @
          [Inr \<lparr>StatusCode = 200, Body = Inr ''true''\<rparr>]"
    by (simp add: run_world_def)
  from t [THEN conjunct2, THEN conjunct1, rule_format, OF ok]
    t [THEN conjunct2, THEN conjunct2, rule_format, OF down]
  show ?thesis by simp
qed

text \<open>
  C3 as the spec states it fails: with a signal that arrives during the first wait, the
  loop under a context that can be cancelled returns the cancellation error, but
  \<open>Request\<close>, on the same transport, sleeps through its four waits and returns the error
  of the fifth attempt. No signal reaches its loop.
\<close>

theorem Request_is_never_cancelled_counterexample:
  "fst (RetryCtx (CancelledDuring 0)
          (rawRequest run_lib (New ''abc123-us6'') ''GET'' ''/lists'' NilInterface None NilInterface)
          5 Minute
          (run_world [Inl ''e1'', Inl ''e2'', Inl ''e3'', Inl ''e4'', Inl ''e5''])) =
     Returns (Some Canceled) \<and>
   fst (Request run_lib (New ''abc123-us6'') ''GET'' ''/lists'' NilInterface None NilInterface 0
          (run_world [Inl ''e1'', Inl ''e2'', Inl ''e3'', Inl ''e4'', Inl ''e5''])) =
     Returns (Some (HTTPError ''e5'')) \<and>
   waits (snd (Request run_lib (New ''abc123-us6'') ''GET'' ''/lists'' NilInterface None NilInterface 0
          (run_world [Inl ''e1'', Inl ''e2'', Inl ''e3'', Inl ''e4'', Inl ''e5'']))) =
     [Slept Minute, Slept Minute, Slept Minute, Slept Minute]"
proof -
  let ?f = "rawRequest run_lib (New ''abc123-us6'') ''GET'' ''/lists'' NilInterface None NilInterface"
  obtain l req where out:
    "outgoingRequest run_lib (New ''abc123-us6'') ''GET'' ''/lists'' NilInterface None = (l, Inr req)"
    by (simp add: run_defs Debug_New)
  have step: "?f w = (Returns (Some (HTTPError m)), w\<lparr>transport := rest, logs := logs w @ l\<rparr>)"
    if "transport w = Inl m # rest" for w m rest
    using that by (rule rawRequest_transport_error [OF out scripted_run_lib])
  have d: "((of_nat (0 mod 9) + 1) * Minute :: Duration) = Minute"
    by simp
  show ?thesis
    unfolding Request_unfold d five
    by (simp add: RetryCtx_Suc step run_world_def Let_def)
qed

end
